theory Spec2Isabelle
  imports Complex_Main "HOL-Library.Sublist"
begin

section \<open>Numbers, vectors and the random source\<close>

text \<open>
  Python floats are modelled as real numbers, so every statement below about a float is
  a statement about the exact value the float arithmetic approximates. A position, a
  scale and a triple of Euler angles are triples of reals.
\<close>

type_synonym vec3 = "real \<times> real \<times> real"

definition vx :: "vec3 \<Rightarrow> real" where
  "vx v = fst v"

definition vy :: "vec3 \<Rightarrow> real" where
  "vy v = fst (snd v)"

definition vz :: "vec3 \<Rightarrow> real" where
  "vz v = snd (snd v)"

text \<open>
  The module \<^verbatim>\<open>random\<close> is one process-wide generator. It is modelled as the stream of
  the outcomes of its successive calls: the call takes the head of the stream and leaves
  the tail. An outcome carries what each kind of call reads from the generator: the
  value of \<^verbatim>\<open>random()\<close> behind \<^verbatim>\<open>uniform\<close>, the integer behind \<^verbatim>\<open>_randbelow\<close> (used by
  \<^verbatim>\<open>randint\<close> and \<^verbatim>\<open>choice\<close>), and the standard normal variate behind \<^verbatim>\<open>gauss\<close>.
\<close>

record draw =
  unit_draw :: real
  index_draw :: nat
  normal_draw :: real

type_synonym rng = "nat \<Rightarrow> draw"

definition rng_tail :: "rng \<Rightarrow> rng" where
  "rng_tail r = (\<lambda>n. r (Suc n))"

text \<open>\<^verbatim>\<open>random.uniform(a, b)\<close> is \<^verbatim>\<open>a + (b - a) * self.random()\<close>.\<close>

definition uniform :: "real \<Rightarrow> real \<Rightarrow> rng \<Rightarrow> real \<times> rng" where
  "uniform a b r = (a + (b - a) * unit_draw (r 0), rng_tail r)"

text \<open>\<^verbatim>\<open>random.gauss(mu, sigma)\<close> is \<^verbatim>\<open>mu + z * sigma\<close> for a standard normal \<^verbatim>\<open>z\<close>.\<close>

definition gauss :: "real \<Rightarrow> real \<Rightarrow> rng \<Rightarrow> real \<times> rng" where
  "gauss mu sigma r = (mu + normal_draw (r 0) * sigma, rng_tail r)"

text \<open>
  \<^verbatim>\<open>random.randint(a, b)\<close> is \<^verbatim>\<open>a + self._randbelow(b - a + 1)\<close>; it is only called
  with \<^verbatim>\<open>a \<le> b\<close> here.
\<close>

definition randint :: "int \<Rightarrow> int \<Rightarrow> rng \<Rightarrow> int \<times> rng" where
  "randint a b r = (a + int (index_draw (r 0) mod nat (b - a + 1)), rng_tail r)"

text \<open>
  The exceptions of the model. \<^verbatim>\<open>IndexError\<close>, \<^verbatim>\<open>ValueError\<close> and every other error of the
  collaborators (\<^verbatim>\<open>OtherException\<close> with its message) derive from \<^verbatim>\<open>Exception\<close>;
  \<^verbatim>\<open>KeyboardInterrupt\<close> and \<^verbatim>\<open>SystemExit\<close> derive from \<^verbatim>\<open>BaseException\<close> only.
\<close>

datatype exn = IndexError | ValueError | OtherException string | KeyboardInterrupt | SystemExit

fun is_Exception :: "exn \<Rightarrow> bool" where
  "is_Exception IndexError = True"
| "is_Exception ValueError = True"
| "is_Exception (OtherException msg) = True"
| "is_Exception KeyboardInterrupt = False"
| "is_Exception SystemExit = False"

text \<open>Sequencing of a step that may raise: the exception ends the computation.\<close>

definition and_then :: "exn + 'a \<Rightarrow> ('a \<Rightarrow> exn + 'b) \<Rightarrow> exn + 'b" where
  "and_then m f = (case m of Inl e \<Rightarrow> Inl e | Inr x \<Rightarrow> f x)"

text \<open>
  \<^verbatim>\<open>random.choice(seq)\<close> raises \<^verbatim>\<open>IndexError\<close> on an empty sequence and returns
  \<^verbatim>\<open>seq[self._randbelow(len(seq))]\<close> otherwise.
\<close>

definition choice :: "'a list \<Rightarrow> rng \<Rightarrow> exn + ('a \<times> rng)" where
  "choice xs r =
     (if xs = [] then Inl IndexError
      else Inr (xs ! (index_draw (r 0) mod length xs), rng_tail r))"

section \<open>The camera rig sampler\<close>

text \<open>
  A \<^verbatim>\<open>kb.PerspectiveCamera\<close> as \<^verbatim>\<open>setup_cameras\<close> constructs it: the keyword arguments of
  the constructor call.
\<close>

record camera =
  cam_position :: vec3
  cam_look_at :: vec3
  focal_length :: real
  min_render_distance :: real
  max_render_distance :: real

definition radians :: "real \<Rightarrow> real" where
  "radians d = d * pi / 180"

text \<open>\<^verbatim>\<open>range(n)\<close>: the integers from 0 below \<^verbatim>\<open>n\<close>, none when \<^verbatim>\<open>n \<le> 0\<close>.\<close>

definition range_py :: "int \<Rightarrow> nat list" where
  "range_py n = [0..<nat n]"

text \<open>The inner loop of \<^verbatim>\<open>setup_cameras\<close>: one camera per distance, at a fixed angle.\<close>

fun camera_ring :: "vec3 \<Rightarrow> real \<Rightarrow> real list \<Rightarrow> rng \<Rightarrow> camera list \<times> rng" where
  "camera_ring target_position angle [] r = ([], r)"
| "camera_ring target_position angle (distance # distances) r =
     (let x = vx target_position + distance * cos (radians angle);
          y = vy target_position + distance * sin (radians angle);
          (jitter, r1) = uniform (- 0.2) 0.2 r;
          z = max (vz target_position + jitter) 0.1;
          (focal, r2) = gauss 5 2 r1;
          cam = \<lparr>cam_position = (x, y, z), cam_look_at = target_position,
                 focal_length = focal, min_render_distance = 0.1,
                 max_render_distance = 100\<rparr>;
          (cams, r3) = camera_ring target_position angle distances r2
      in (cam # cams, r3))"

text \<open>
  The outer loop, over the angle indices \<^verbatim>\<open>i\<close>; the angle of index \<^verbatim>\<open>i\<close> is
  \<^verbatim>\<open>(360 / num_angles) * i\<close>, computed when the index is reached.
\<close>

fun camera_rings :: "vec3 \<Rightarrow> int \<Rightarrow> nat list \<Rightarrow> real list \<Rightarrow> rng \<Rightarrow> camera list \<times> rng" where
  "camera_rings target_position num_angles [] distances r = ([], r)"
| "camera_rings target_position num_angles (i # is) distances r =
     (let (cams, r1) =
            camera_ring target_position ((360 / real_of_int num_angles) * real i) distances r;
          (cams', r2) = camera_rings target_position num_angles is distances r1
      in (cams @ cams', r2))"

definition setup_cameras :: "vec3 \<Rightarrow> int \<Rightarrow> real list \<Rightarrow> rng \<Rightarrow> camera list \<times> rng" where
  "setup_cameras target_position num_angles distances r =
     camera_rings target_position num_angles (range_py num_angles) distances r"

text \<open>A generator that answers every call with the same outcome, for concrete runs.\<close>

definition rng_const :: "real \<Rightarrow> nat \<Rightarrow> real \<Rightarrow> rng" where
  "rng_const u k g = (\<lambda>n. \<lparr>unit_draw = u, index_draw = k, normal_draw = g\<rparr>)"

section \<open>Orientations\<close>

text \<open>
  A kubric quaternion (\<^verbatim>\<open>kb.Quaternion\<close> is pyquaternion's class, and the \<^verbatim>\<open>quaternion\<close>
  attribute of an object is the array of its elements) has its components in the order
  (w, x, y, z), scalar first.
\<close>

type_synonym quat4 = "real \<times> real \<times> real \<times> real"

text \<open>\<^verbatim>\<open>kb.Quaternion(axis=..., angle=...)\<close>: the axis is normalised.\<close>

definition quaternion_axis_angle :: "vec3 \<Rightarrow> real \<Rightarrow> quat4" where
  "quaternion_axis_angle axis angle =
     (case axis of (ax, ay, az) \<Rightarrow>
        let n = sqrt (ax * ax + ay * ay + az * az);
            s = sin (angle / 2)
        in (cos (angle / 2), s * (ax / n), s * (ay / n), s * (az / n)))"

text \<open>The product \<^verbatim>\<open>p * q\<close> of two kubric quaternions (Hamilton product).\<close>

definition quaternion_mul :: "quat4 \<Rightarrow> quat4 \<Rightarrow> quat4" where
  "quaternion_mul p q =
     (case p of (pw, px, py, pz) \<Rightarrow> case q of (qw, qx, qy, qz) \<Rightarrow>
        (pw * qw - px * qx - py * qy - pz * qz,
         pw * qx + px * qw + py * qz - pz * qy,
         pw * qy - px * qz + py * qw + pz * qx,
         pw * qz + px * qy - py * qx + pz * qw))"

definition quaternion_norm2 :: "quat4 \<Rightarrow> real" where
  "quaternion_norm2 q = (case q of (a, b, c, d) \<Rightarrow> a * a + b * b + c * c + d * d)"

text \<open>
  The orientation noise of \<^verbatim>\<open>add_random_objects\<close> and \<^verbatim>\<open>place_pallet\<close>: three draws
  of \<^verbatim>\<open>uniform(-0.05, 0.05)\<close> for the angles about X, Y and Z, and the product
  \<^verbatim>\<open>base_rotation * jiggle_x * jiggle_y * jiggle_z\<close>.
\<close>

definition jiggle_rotation :: "rng \<Rightarrow> quat4 \<times> rng" where
  "jiggle_rotation r =
     (let base_rotation = quaternion_axis_angle (1, 0, 0) (pi / 2);
          (ax, r1) = uniform (- 0.05) 0.05 r;
          jiggle_x = quaternion_axis_angle (1, 0, 0) ax;
          (ay, r2) = uniform (- 0.05) 0.05 r1;
          jiggle_y = quaternion_axis_angle (0, 1, 0) ay;
          (az, r3) = uniform (- 0.05) 0.05 r2;
          jiggle_z = quaternion_axis_angle (0, 0, 1) az
      in (quaternion_mul (quaternion_mul (quaternion_mul base_rotation jiggle_x) jiggle_y)
            jiggle_z, r3))"

text \<open>
  A scipy \<^verbatim>\<open>Rotation\<close> holds a unit quaternion with the components (x, y, z, w), scalar
  last. \<^verbatim>\<open>Rotation.from_quat(q)\<close> reads the four numbers of \<^verbatim>\<open>q\<close> in that order,
  normalises them, and raises \<^verbatim>\<open>ValueError\<close> when their norm is zero.
\<close>

datatype rotation = Rotation (rot_x: real) (rot_y: real) (rot_z: real) (rot_w: real)

definition from_quat :: "quat4 \<Rightarrow> exn + rotation" where
  "from_quat q =
     (case q of (a, b, c, d) \<Rightarrow>
        let n = sqrt (a * a + b * b + c * c + d * d)
        in if n = 0 then Inl ValueError else Inr (Rotation (a / n) (b / n) (c / n) (d / n)))"

text \<open>\<^verbatim>\<open>r.inv()\<close> and the composition \<^verbatim>\<open>p * q\<close> of two rotations (apply q, then p).\<close>

definition rotation_inv :: "rotation \<Rightarrow> rotation" where
  "rotation_inv p = Rotation (- rot_x p) (- rot_y p) (- rot_z p) (rot_w p)"

definition rotation_mul :: "rotation \<Rightarrow> rotation \<Rightarrow> rotation" where
  "rotation_mul p q =
     Rotation
       (rot_w p * rot_x q + rot_x p * rot_w q + rot_y p * rot_z q - rot_z p * rot_y q)
       (rot_w p * rot_y q - rot_x p * rot_z q + rot_y p * rot_w q + rot_z p * rot_x q)
       (rot_w p * rot_z q + rot_x p * rot_y q - rot_y p * rot_x q + rot_z p * rot_w q)
       (rot_w p * rot_w q - rot_x p * rot_x q - rot_y p * rot_y q - rot_z p * rot_z q)"

text \<open>The angle of the point (x, y) in the plane, in (-pi, pi] (\<^verbatim>\<open>arctan2(y, x)\<close>).\<close>

definition arctan2 :: "real \<Rightarrow> real \<Rightarrow> real" where
  "arctan2 y x =
     (if 0 < x then arctan (y / x)
      else if x < 0 then (if 0 \<le> y then arctan (y / x) + pi else arctan (y / x) - pi)
      else if 0 < y then pi / 2
      else if y < 0 then - (pi / 2)
      else 0)"

definition rad2deg :: "real \<Rightarrow> real" where
  "rad2deg a = a * 180 / pi"

text \<open>
  \<^verbatim>\<open>r.as_euler("xyz", degrees=...)\<close>: the angles (a, b, c) of the extrinsic rotations about
  x, then y, then z that compose to \<^verbatim>\<open>r\<close>, with b in [-pi/2, pi/2]; in gimbal lock
  (b = pi/2 or -pi/2) the third angle is set to zero. The angles are in radians, and
  converted to degrees only when \<^verbatim>\<open>degrees\<close> is true; the parameter defaults to false.
\<close>

definition as_euler_xyz :: "rotation \<Rightarrow> bool \<Rightarrow> vec3" where
  "as_euler_xyz p degrees =
     (let x = rot_x p; y = rot_y p; z = rot_z p; w = rot_w p;
          s = 2 * (w * y - x * z);
          b = arcsin s;
          a = (if \<bar>s\<bar> = 1 then arctan2 (2 * (w * x - y * z)) (1 - 2 * (x * x + z * z))
               else arctan2 (2 * (w * x + y * z)) (1 - 2 * (x * x + y * y)));
          c = (if \<bar>s\<bar> = 1 then 0
               else arctan2 (2 * (w * z + x * y)) (1 - 2 * (y * y + z * z)))
      in if degrees then (rad2deg a, rad2deg b, rad2deg c) else (a, b, c))"

section \<open>Scenes\<close>

text \<open>
  The kubric assets this program creates. \<^verbatim>\<open>kb.Cube\<close> and \<^verbatim>\<open>kb.FileBasedObject\<close> are
  subclasses of \<^verbatim>\<open>kb.PhysicalObject\<close>; \<^verbatim>\<open>kb.DirectionalLight\<close> and \<^verbatim>\<open>kb.PointLight\<close> are
  subclasses of \<^verbatim>\<open>kb.Light\<close>. The constructor of \<^verbatim>\<open>asset\<close> is therefore what
  \<^verbatim>\<open>isinstance(o, kb.PhysicalObject)\<close> and \<^verbatim>\<open>isinstance(o, kb.Light)\<close> test. An object
  built without a quaternion has kubric's default, the identity (1, 0, 0, 0).
\<close>

datatype object_class = Cube | FileBasedObject string string

record physical_object =
  obj_class :: object_class
  obj_name :: string
  obj_scale :: vec3
  obj_position :: vec3
  obj_quaternion :: quat4

datatype light_class = DirectionalLight vec3 | PointLight

record light =
  light_kind :: light_class
  light_position :: vec3
  light_intensity :: real
  light_color :: vec3

datatype asset = PhysicalObject physical_object | Light light

fun is_PhysicalObject :: "asset \<Rightarrow> bool" where
  "is_PhysicalObject (PhysicalObject obj) = True"
| "is_PhysicalObject (Light l) = False"

fun is_Light :: "asset \<Rightarrow> bool" where
  "is_Light (PhysicalObject obj) = False"
| "is_Light (Light l) = True"

definition cube :: "string \<Rightarrow> vec3 \<Rightarrow> vec3 \<Rightarrow> physical_object" where
  "cube name scale position =
     \<lparr>obj_class = Cube, obj_name = name, obj_scale = scale, obj_position = position,
      obj_quaternion = (1, 0, 0, 0)\<rparr>"

record texture_set =
  color :: "string option"
  normal :: "string option"
  roughness :: "string option"

text \<open>
  The module-level catalogs \<^verbatim>\<open>ASSET_CATEGORIES\<close> and \<^verbatim>\<open>TEXTURE_CATEGORIES\<close>, built once
  when the module is loaded.
\<close>

record catalogs =
  pallet_assets :: "string list"
  rack_assets :: "string list"
  forklift_assets :: "string list"
  wood_textures :: "texture_set list"
  metal_textures :: "texture_set list"
  plastic_textures :: "texture_set list"
  floor_textures :: "texture_set list"

datatype category = Pallet | Rack | Forklift

fun asset_category :: "catalogs \<Rightarrow> category \<Rightarrow> string list" where
  "asset_category cat Pallet = pallet_assets cat"
| "asset_category cat Rack = rack_assets cat"
| "asset_category cat Forklift = forklift_assets cat"

text \<open>
  The state of one scene: the assets of the \<^verbatim>\<open>kb.Scene\<close> in the order they were added,
  its ambient illumination (\<^verbatim>\<open>None\<close> while the program has not set it; a \<^verbatim>\<open>kb.Color\<close> has
  the four components r, g, b, a, and a defaults to 1), and the materials that
  \<^verbatim>\<open>apply_texture\<close> created in Blender (asset name, texture set, UV scale).
\<close>

record scene =
  assets :: "asset list"
  ambient_illumination :: "real list option"
  materials :: "(string \<times> texture_set \<times> real) list"

definition new_scene :: scene where
  "new_scene = \<lparr>assets = [], ambient_illumination = None, materials = []\<rparr>"

text \<open>\<^verbatim>\<open>scene += asset\<close>.\<close>

definition scene_add :: "scene \<Rightarrow> asset \<Rightarrow> scene" where
  "scene_add sc a = sc\<lparr>assets := assets sc @ [a]\<rparr>"

text \<open>
  \<^verbatim>\<open>apply_texture(asset, texture_set, scale)\<close> builds a Blender material named after the
  asset; it leaves the assets of the scene as they are.
\<close>

definition apply_texture :: "scene \<Rightarrow> physical_object \<Rightarrow> texture_set \<Rightarrow> real \<Rightarrow> scene" where
  "apply_texture sc obj tex scale = sc\<lparr>materials := materials sc @ [(obj_name obj, tex, scale)]\<rparr>"

record warehouse_dims =
  dim_length :: real
  dim_width :: real
  dim_height :: real

text \<open>The loop of \<^verbatim>\<open>setup_building\<close> over the four walls.\<close>

fun add_walls ::
  "texture_set list \<Rightarrow> physical_object list \<Rightarrow> scene \<Rightarrow> rng \<Rightarrow> exn + (scene \<times> rng)" where
  "add_walls valid_texture_categories [] sc r = Inr (sc, r)"
| "add_walls valid_texture_categories (wall # walls) sc r =
     (let sc1 = scene_add sc (PhysicalObject wall)
      in and_then (choice valid_texture_categories r) (\<lambda>(tex, r1).
           let (scale, r2) = uniform 50 150 r1
           in add_walls valid_texture_categories walls (apply_texture sc1 wall tex scale) r2))"

definition setup_building :: "catalogs \<Rightarrow> scene \<Rightarrow> rng \<Rightarrow> exn + (warehouse_dims \<times> scene \<times> rng)" where
  "setup_building cat sc r =
     (let (warehouse_length, r1) = uniform 30 100 r;
          (warehouse_width, r2) = uniform 20 70 r1;
          (warehouse_height, r3) = uniform 8 20 r2;
          valid_texture_categories =
            floor_textures cat @ wood_textures cat @ metal_textures cat @ plastic_textures cat;
          floor = cube ''floor'' (warehouse_length, warehouse_width, 0.1) (0, 0, - 0.1);
          sc1 = scene_add sc (PhysicalObject floor)
      in and_then (choice valid_texture_categories r3) (\<lambda>(tex, r4).
           let (scale, r5) = uniform 100 300 r4;
               sc2 = apply_texture sc1 floor tex scale;
               wall_thickness = 0.2;
               walls =
                 [cube ''front_wall'' (warehouse_length, wall_thickness, warehouse_height)
                    (0, - warehouse_width / 2, warehouse_height / 2),
                  cube ''back_wall'' (warehouse_length, wall_thickness, warehouse_height)
                    (0, warehouse_width / 2, warehouse_height / 2),
                  cube ''left_wall'' (wall_thickness, warehouse_width, warehouse_height)
                    (- warehouse_length / 2, 0, warehouse_height / 2),
                  cube ''right_wall'' (wall_thickness, warehouse_width, warehouse_height)
                    (warehouse_length / 2, 0, warehouse_height / 2)]
           in and_then (add_walls valid_texture_categories walls sc2 r5) (\<lambda>(sc3, r6).
                Inr (\<lparr>dim_length = warehouse_length, dim_width = warehouse_width,
                       dim_height = warehouse_height\<rparr>, sc3, r6))))"

text \<open>The loop of \<^verbatim>\<open>add_random_lighting\<close> over \<^verbatim>\<open>range(num_lights)\<close>.\<close>

fun add_lights :: "nat list \<Rightarrow> warehouse_dims \<Rightarrow> scene \<Rightarrow> rng \<Rightarrow> scene \<times> rng" where
  "add_lights [] warehouse_dims sc r = (sc, r)"
| "add_lights (i # is) warehouse_dims sc r =
     (let warehouse_length = dim_length warehouse_dims;
          warehouse_width = dim_width warehouse_dims;
          warehouse_height = dim_height warehouse_dims;
          (px, r1) = uniform (- warehouse_length / 2) (warehouse_length / 2) r;
          (py, r2) = uniform (- warehouse_width / 2) (warehouse_width / 2) r1;
          (pz, r3) = uniform (warehouse_height * 0.8) (warehouse_height * 0.95) r2;
          (cr, r4) = uniform 0.5 1 r3;
          (cg, r5) = uniform 0.5 1 r4;
          (cb, r6) = uniform 0.5 1 r5;
          (intensity, r7) = uniform 1 10 r6;
          l = (if i = 0
               then \<lparr>light_kind = DirectionalLight (0, 0, 0), light_position = (px, py, pz),
                      light_intensity = intensity, light_color = (cr, cg, cb)\<rparr>
               else \<lparr>light_kind = PointLight, light_position = (px, py, pz),
                      light_intensity = intensity, light_color = (cr, cg, cb)\<rparr>)
      in add_lights is warehouse_dims (scene_add sc (Light l)) r7)"

definition add_random_lighting :: "scene \<Rightarrow> int \<Rightarrow> warehouse_dims \<Rightarrow> rng \<Rightarrow> scene \<times> rng" where
  "add_random_lighting sc num_lights warehouse_dims r =
     (let (ar, r1) = uniform 0.5 1 r;
          (ag, r2) = uniform 0.5 1 r1;
          (ab, r3) = uniform 0.5 1 r2;
          sc1 = sc\<lparr>ambient_illumination := Some [ar, ag, ab, 1]\<rparr>
      in add_lights (range_py num_lights) warehouse_dims sc1 r3)"

text \<open>\<^verbatim>\<open>os.path.basename\<close>: what follows the last slash.\<close>

definition basename :: "string \<Rightarrow> string" where
  "basename p = rev (takeWhile (\<lambda>c. c \<noteq> CHR ''/'') (rev p))"

text \<open>
  The object one iteration of \<^verbatim>\<open>add_random_objects\<close> builds from the chosen asset path:
  the draws for the scale, the planar position and the orientation, and the call of
  \<^verbatim>\<open>kb.FileBasedObject\<close>.
\<close>

definition scattered_object :: "string \<Rightarrow> rng \<Rightarrow> physical_object \<times> rng" where
  "scattered_object asset_path r =
     (let (scale, r1) = uniform 0.8 1.2 r;
          (px, r2) = uniform (- 10) 10 r1;
          (py, r3) = uniform (- 10) 10 r2;
          (rotation, r4) = jiggle_rotation r3
      in (\<lparr>obj_class = FileBasedObject asset_path asset_path,
            obj_name = basename asset_path, obj_scale = (scale, scale, scale),
            obj_position = (px, py, 0), obj_quaternion = rotation\<rparr>, r4))"

text \<open>The loop of \<^verbatim>\<open>add_random_objects\<close> over \<^verbatim>\<open>range(num_objects)\<close>.\<close>

fun add_objects ::
  "catalogs \<Rightarrow> category \<Rightarrow> nat list \<Rightarrow> texture_set list \<Rightarrow> scene \<Rightarrow> rng \<Rightarrow>
   exn + (scene \<times> rng)" where
  "add_objects cat category [] texture_list sc r = Inr (sc, r)"
| "add_objects cat category (i # is) texture_list sc r =
     and_then (choice (asset_category cat category) r) (\<lambda>(asset_path, r1).
       let (obj, r2) = scattered_object asset_path r1;
           sc1 = scene_add sc (PhysicalObject obj)
       in and_then (choice texture_list r2) (\<lambda>(tex, r3).
            let (tex_scale, r4) = uniform 0.5 1.5 r3
            in add_objects cat category is texture_list (apply_texture sc1 obj tex tex_scale) r4))"

definition add_random_objects ::
  "catalogs \<Rightarrow> scene \<Rightarrow> category \<Rightarrow> int \<Rightarrow> texture_set list \<Rightarrow> rng \<Rightarrow> exn + (scene \<times> rng)" where
  "add_random_objects cat sc category num_objects texture_list r =
     add_objects cat category (range_py num_objects) texture_list sc r"

text \<open>
  The object \<^verbatim>\<open>place_pallet\<close> builds from the chosen asset path and the dimensions of the
  warehouse.
\<close>

definition target_object :: "string \<Rightarrow> warehouse_dims \<Rightarrow> rng \<Rightarrow> physical_object \<times> rng" where
  "target_object asset_path dims r =
     (let (scale, r1) = uniform 0.9 1.1 r;
          (ux, r2) = uniform (- dim_length dims) (dim_length dims) r1;
          (uy, r3) = uniform (- dim_width dims) (dim_width dims) r2;
          (pz, r4) = uniform 0 1 r3;
          (rotation, r5) = jiggle_rotation r4
      in (\<lparr>obj_class = FileBasedObject asset_path asset_path,
            obj_name = ''target_'' @ basename asset_path, obj_scale = (scale, scale, scale),
            obj_position = (ux / 2, uy / 2, pz), obj_quaternion = rotation\<rparr>, r5))"

definition place_pallet ::
  "catalogs \<Rightarrow> scene \<Rightarrow> warehouse_dims \<Rightarrow> rng \<Rightarrow> exn + (physical_object \<times> scene \<times> rng)" where
  "place_pallet cat sc dims r =
     and_then (choice (pallet_assets cat) r) (\<lambda>(asset_path, r1).
       let (obj, r2) = target_object asset_path dims r1;
           sc1 = scene_add sc (PhysicalObject obj)
       in and_then (choice (wood_textures cat) r2) (\<lambda>(tex, r3).
            let (tex_scale, r4) = uniform 0.5 1.5 r3
            in Inr (obj, apply_texture sc1 obj tex tex_scale, r4)))"

section \<open>Scene metadata\<close>

record scene_object_record =
  rec_name :: string
  rec_position :: vec3
  rec_scale :: vec3
  rec_rotation :: vec3

record lighting_conditions =
  ambient_color :: "real list option"
  num_lights :: nat

record scene_metadata =
  scene_index :: nat
  warehouse_dimensions :: warehouse_dims
  lighting :: lighting_conditions
  objects :: "scene_object_record list"

text \<open>
  One entry of the \<^verbatim>\<open>"objects"\<close> list of \<^verbatim>\<open>generate_scene\<close>; the rotation is
  \<^verbatim>\<open>Rotation.from_quat(obj.quaternion).as_euler("xyz")\<close>, with no \<^verbatim>\<open>degrees\<close> argument.
\<close>

definition object_record :: "physical_object \<Rightarrow> exn + scene_object_record" where
  "object_record obj =
     and_then (from_quat (obj_quaternion obj)) (\<lambda>rot.
       Inr \<lparr>rec_name = obj_name obj, rec_position = obj_position obj,
            rec_scale = obj_scale obj, rec_rotation = as_euler_xyz rot False\<rparr>)"

text \<open>
  The list comprehension over \<^verbatim>\<open>scene.assets\<close> with the filter
  \<^verbatim>\<open>isinstance(obj, kb.PhysicalObject)\<close>.
\<close>

fun object_records :: "asset list \<Rightarrow> exn + scene_object_record list" where
  "object_records [] = Inr []"
| "object_records (Light l # as) = object_records as"
| "object_records (PhysicalObject obj # as) =
     and_then (object_record obj) (\<lambda>rec.
       and_then (object_records as) (\<lambda>recs. Inr (rec # recs)))"

text \<open>The dictionary \<^verbatim>\<open>scene_metadata\<close> of \<^verbatim>\<open>generate_scene\<close>.\<close>

definition scene_metadata_of :: "nat \<Rightarrow> warehouse_dims \<Rightarrow> scene \<Rightarrow> exn + scene_metadata" where
  "scene_metadata_of idx dims sc =
     and_then (object_records (assets sc)) (\<lambda>recs.
       Inr \<lparr>scene_index = idx, warehouse_dimensions = dims,
            lighting = \<lparr>ambient_color = ambient_illumination sc,
                        num_lights = length (filter is_Light (assets sc))\<rparr>,
            objects = recs\<rparr>)"

section \<open>Paths\<close>

text \<open>The decimal digits of a natural number, as an f-string prints an index.\<close>

definition digit_char :: "nat \<Rightarrow> char" where
  "digit_char d = ''0123456789'' ! d"

fun str_nat :: "nat \<Rightarrow> string" where
  "str_nat n = (if n < 10 then [digit_char n] else str_nat (n div 10) @ [digit_char (n mod 10)])"

definition startswith :: "string \<Rightarrow> string \<Rightarrow> bool" where
  "startswith s pre = (take (length pre) s = pre)"

definition endswith :: "string \<Rightarrow> string \<Rightarrow> bool" where
  "endswith s suf = (length suf \<le> length s \<and> drop (length s - length suf) s = suf)"

text \<open>\<^verbatim>\<open>os.path.join(a, *p)\<close> of \<^verbatim>\<open>posixpath\<close>.\<close>

fun path_join :: "string \<Rightarrow> string list \<Rightarrow> string" where
  "path_join path [] = path"
| "path_join path (b # bs) =
     path_join
       (if startswith b ''/'' then b
        else if path = [] \<or> endswith path ''/'' then path @ b
        else path @ ''/'' @ b) bs"

text \<open>\<^verbatim>\<open>s.split(c)\<close> for a separator of one character, and \<^verbatim>\<open>sep.join(parts)\<close>.\<close>

fun split_on :: "char \<Rightarrow> string \<Rightarrow> string list" where
  "split_on c [] = [[]]"
| "split_on c (x # xs) =
     (if x = c then [] # split_on c xs
      else (case split_on c xs of [] \<Rightarrow> [[x]] | y # ys \<Rightarrow> (x # y) # ys))"

fun sep_join :: "string \<Rightarrow> string list \<Rightarrow> string" where
  "sep_join sep [] = []"
| "sep_join sep [x] = x"
| "sep_join sep (x # y # ys) = x @ sep @ sep_join sep (y # ys)"

text \<open>\<^verbatim>\<open>os.path.normpath\<close> of \<^verbatim>\<open>posixpath\<close>; \<^verbatim>\<open>normpath_step\<close> is the body of its loop.\<close>

definition normpath_step :: "nat \<Rightarrow> string list \<Rightarrow> string \<Rightarrow> string list" where
  "normpath_step initial_slashes new_comps component =
     (if component = [] \<or> component = ''.'' then new_comps
      else if component \<noteq> ''..'' \<or> (initial_slashes = 0 \<and> new_comps = []) \<or>
              (new_comps \<noteq> [] \<and> last new_comps = ''..'')
           then new_comps @ [component]
      else if new_comps \<noteq> [] then butlast new_comps
      else new_comps)"

definition normpath :: "string \<Rightarrow> string" where
  "normpath path =
     (if path = [] then ''.''
      else
        let initial_slashes =
              (if startswith path ''/''
               then (if startswith path ''//'' \<and> \<not> startswith path ''///'' then 2 else 1)
               else (0::nat));
            comps = split_on CHR ''/'' path;
            new_comps = foldl (normpath_step initial_slashes) [] comps;
            path' = replicate initial_slashes CHR ''/'' @ sep_join ''/'' new_comps
        in if path' = [] then ''.'' else path')"

text \<open>
  \<^verbatim>\<open>os.path.abspath\<close> and \<^verbatim>\<open>os.path.relpath(path, start)\<close>; \<^verbatim>\<open>cwd\<close> is what \<^verbatim>\<open>os.getcwd()\<close>
  returns.
\<close>

definition abspath :: "string \<Rightarrow> string \<Rightarrow> string" where
  "abspath cwd path = normpath (if startswith path ''/'' then path else path_join cwd [path])"

definition relpath :: "string \<Rightarrow> string \<Rightarrow> string \<Rightarrow> exn + string" where
  "relpath cwd path start =
     (if path = [] then Inl ValueError
      else
        let start_list = filter (\<lambda>x. x \<noteq> []) (split_on CHR ''/'' (abspath cwd start));
            path_list = filter (\<lambda>x. x \<noteq> []) (split_on CHR ''/'' (abspath cwd path));
            i = length (longest_common_prefix start_list path_list);
            rel_list = replicate (length start_list - i) ''..'' @ drop i path_list
        in (case rel_list of [] \<Rightarrow> Inr ''.'' | x # xs \<Rightarrow> Inr (path_join x xs)))"

section \<open>Rendering one camera\<close>

record camera_metadata =
  camera_index :: nat
  cm_position :: vec3
  relative_position_xyz :: vec3
  relative_orientation_xyz :: vec3
  cm_focal_length :: real
  rgba_path :: string
  depth_path :: string

text \<open>
  \<^verbatim>\<open>save_render_data\<close>. The renderer and the image writers are collaborators: the model
  keeps the paths of the files written, in order, and the camera metadata document.
  \<^verbatim>\<open>camera_quaternion\<close> is the \<^verbatim>\<open>quaternion\<close> attribute of the camera, which kubric derives
  from its position and its \<^verbatim>\<open>look_at\<close> target.
\<close>

definition save_render_data ::
  "string \<Rightarrow> string \<Rightarrow> nat \<Rightarrow> nat \<Rightarrow> camera \<Rightarrow> quat4 \<Rightarrow> physical_object \<Rightarrow>
   exn + (camera_metadata \<times> string list)" where
  "save_render_data cwd output_dir scene_idx camera_idx cam camera_quaternion pallet =
     (let scene_dir = path_join output_dir [''scene_'' @ str_nat scene_idx];
          camera_dir = path_join scene_dir [''cam_'' @ str_nat camera_idx];
          rgba = path_join camera_dir [''rgba.png''];
          depth = path_join camera_dir [''depth.tiff''];
          depth_png = path_join camera_dir [''depth_normalized.png''];
          segmentation = path_join camera_dir [''segmentation.png''];
          relative_position =
            (vx (obj_position pallet) - vx (cam_position cam),
             vy (obj_position pallet) - vy (cam_position cam),
             vz (obj_position pallet) - vz (cam_position cam))
      in and_then (from_quat camera_quaternion) (\<lambda>cam_rot.
         and_then (from_quat (obj_quaternion pallet)) (\<lambda>pallet_rot.
           let relative_orientation = rotation_mul (rotation_inv cam_rot) pallet_rot
           in and_then (relpath cwd rgba output_dir) (\<lambda>rgba_rel.
              and_then (relpath cwd depth output_dir) (\<lambda>depth_rel.
                Inr (\<lparr>camera_index = camera_idx, cm_position = cam_position cam,
                       relative_position_xyz = relative_position,
                       relative_orientation_xyz = as_euler_xyz relative_orientation True,
                       cm_focal_length = focal_length cam,
                       rgba_path = rgba_rel, depth_path = depth_rel\<rparr>,
                     [rgba, depth, depth_png, segmentation,
                      path_join camera_dir [''metadata.json'']]))))))"

section \<open>The scene orchestrator\<close>

text \<open>The loop of \<^verbatim>\<open>generate_scene\<close> over \<^verbatim>\<open>enumerate(cameras)\<close>.\<close>

fun save_cameras ::
  "string \<Rightarrow> (vec3 \<Rightarrow> vec3 \<Rightarrow> quat4) \<Rightarrow> string \<Rightarrow> nat \<Rightarrow> physical_object \<Rightarrow>
   (nat \<times> camera) list \<Rightarrow> exn + (camera_metadata list \<times> string list)" where
  "save_cameras cwd look_at_quat output_dir scene_idx pallet [] = Inr ([], [])"
| "save_cameras cwd look_at_quat output_dir scene_idx pallet ((camera_idx, cam) # rest) =
     and_then
       (save_render_data cwd output_dir scene_idx camera_idx cam
          (look_at_quat (cam_position cam) (cam_look_at cam)) pallet)
       (\<lambda>(doc, files).
          and_then (save_cameras cwd look_at_quat output_dir scene_idx pallet rest)
            (\<lambda>(docs, files'). Inr (doc # docs, files @ files')))"

record scene_output =
  out_scene :: scene
  out_metadata :: scene_metadata
  out_cameras :: "camera_metadata list"
  out_files :: "string list"

text \<open>
  \<^verbatim>\<open>generate_scene\<close>. \<^verbatim>\<open>look_at_quat\<close> stands for kubric's computation of a camera's
  quaternion from its position and target.
\<close>

definition generate_scene ::
  "string \<Rightarrow> (vec3 \<Rightarrow> vec3 \<Rightarrow> quat4) \<Rightarrow> catalogs \<Rightarrow> string \<Rightarrow> nat \<Rightarrow> int \<Rightarrow> real list \<Rightarrow>
   rng \<Rightarrow> exn + scene_output" where
  "generate_scene cwd look_at_quat cat output_dir scene_idx num_angles distances r =
     and_then (setup_building cat new_scene r) (\<lambda>(dims, sc1, r1).
       let (n_lights, r2) = randint 5 10 r1;
           (sc2, r3) = add_random_lighting sc1 n_lights dims r2;
           (n_rack, r4) = randint 10 30 r3
       in and_then
            (add_random_objects cat sc2 Rack n_rack (metal_textures cat @ plastic_textures cat) r4)
            (\<lambda>(sc3, r5).
          let (n_forklift, r6) = randint 5 10 r5
          in and_then
               (add_random_objects cat sc3 Forklift n_forklift
                  (plastic_textures cat @ metal_textures cat) r6)
               (\<lambda>(sc4, r7).
             let (n_pallet, r8) = randint 1 5 r7
             in and_then (add_random_objects cat sc4 Pallet n_pallet (wood_textures cat) r8)
                  (\<lambda>(sc5, r9).
                and_then (place_pallet cat sc5 dims r9) (\<lambda>(target_pallet, sc6, r10).
                  let scene_dir = path_join output_dir [''scene_'' @ str_nat scene_idx]
                  in and_then (scene_metadata_of scene_idx dims sc6) (\<lambda>metadata.
                       let (cameras, r11) =
                             setup_cameras (obj_position target_pallet) num_angles distances r10
                       in and_then
                            (save_cameras cwd look_at_quat output_dir scene_idx target_pallet
                               (zip [0..<length cameras] cameras))
                            (\<lambda>(docs, files).
                               Inr \<lparr>out_scene = sc6, out_metadata = metadata,
                                    out_cameras = docs,
                                    out_files =
                                      path_join scene_dir [''metadata.json''] # files\<rparr>)))))))"

section \<open>Views of a scene used in the statements\<close>

text \<open>The lights and the physical objects among the assets, in the order of the assets.\<close>

fun lights_of :: "asset list \<Rightarrow> light list" where
  "lights_of [] = []"
| "lights_of (Light l # as) = l # lights_of as"
| "lights_of (PhysicalObject obj # as) = lights_of as"

fun physical_of :: "asset list \<Rightarrow> physical_object list" where
  "physical_of [] = []"
| "physical_of (Light l # as) = physical_of as"
| "physical_of (PhysicalObject obj # as) = obj # physical_of as"

fun is_directional :: "light \<Rightarrow> bool" where
  "is_directional l = (case light_kind l of DirectionalLight target \<Rightarrow> True | PointLight \<Rightarrow> False)"

fun is_file_based :: "physical_object \<Rightarrow> bool" where
  "is_file_based obj = (case obj_class obj of Cube \<Rightarrow> False | FileBasedObject sim ren \<Rightarrow> True)"

text \<open>
  The floor and the four walls of a warehouse of given dimensions, as \<^verbatim>\<open>setup_building\<close>
  constructs them, and the dimensions it draws from a generator.
\<close>

definition building_objects :: "warehouse_dims \<Rightarrow> physical_object list" where
  "building_objects dims =
     [cube ''floor'' (dim_length dims, dim_width dims, 0.1) (0, 0, - 0.1),
      cube ''front_wall'' (dim_length dims, 0.2, dim_height dims)
        (0, - dim_width dims / 2, dim_height dims / 2),
      cube ''back_wall'' (dim_length dims, 0.2, dim_height dims)
        (0, dim_width dims / 2, dim_height dims / 2),
      cube ''left_wall'' (0.2, dim_width dims, dim_height dims)
        (- dim_length dims / 2, 0, dim_height dims / 2),
      cube ''right_wall'' (0.2, dim_width dims, dim_height dims)
        (dim_length dims / 2, 0, dim_height dims / 2)]"

definition sampled_dims :: "rng \<Rightarrow> warehouse_dims" where
  "sampled_dims r =
     \<lparr>dim_length = fst (uniform 30 100 r),
      dim_width = fst (uniform 20 70 (snd (uniform 30 100 r))),
      dim_height = fst (uniform 8 20 (snd (uniform 20 70 (snd (uniform 30 100 r)))))\<rparr>"

text \<open>An object loaded from files whose orientation is a unit quaternion.\<close>

definition unit_file_object :: "physical_object \<Rightarrow> bool" where
  "unit_file_object obj = (is_file_based obj \<and> quaternion_norm2 (obj_quaternion obj) = 1)"

text \<open>Catalogs from which every draw of \<^verbatim>\<open>generate_scene\<close> can be made.\<close>

definition catalogs_nonempty :: "catalogs \<Rightarrow> bool" where
  "catalogs_nonempty cat =
     (pallet_assets cat \<noteq> [] \<and> rack_assets cat \<noteq> [] \<and> forklift_assets cat \<noteq> [] \<and>
      wood_textures cat \<noteq> [] \<and> metal_textures cat \<noteq> [] \<and> plastic_textures cat \<noteq> [])"

text \<open>A concrete run: one asset and one texture set in every category.\<close>

definition tex0 :: texture_set where
  "tex0 = \<lparr>color = Some ''assets/wood/oak_color.jpg'', normal = None, roughness = None\<rparr>"

definition cat0 :: catalogs where
  "cat0 =
     \<lparr>pallet_assets = [''assets/pallet/euro.obj''], rack_assets = [''assets/rack/rack.obj''],
      forklift_assets = [''assets/forklift/lift.obj''], wood_textures = [tex0],
      metal_textures = [tex0], plastic_textures = [tex0], floor_textures = []\<rparr>"

definition look_down :: "vec3 \<Rightarrow> vec3 \<Rightarrow> quat4" where
  "look_down position target = (1, 0, 0, 0)"

definition run0 :: "exn + scene_output" where
  "run0 = generate_scene ''/work'' look_down cat0 ''output'' 0 1 [1] (rng_const (1 / 2) 0 0)"

text \<open>The names \<^verbatim>\<open>setup_building\<close> gives the floor and the four wall slabs.\<close>

definition structural_names :: "string list" where
  "structural_names = [''floor'', ''front_wall'', ''back_wall'', ''left_wall'', ''right_wall'']"

text \<open>A metadata record that carries the name, position and scale of an object.\<close>

definition record_of :: "physical_object \<Rightarrow> scene_object_record \<Rightarrow> bool" where
  "record_of obj rec =
     (rec_name rec = obj_name obj \<and> rec_position rec = obj_position obj \<and>
      rec_scale rec = obj_scale obj)"

text \<open>
  The orientation a kubric quaternion denotes: kubric stores the components as (w, x, y, z),
  scalar first. \<^verbatim>\<open>spec_rotation_degrees\<close> and \<^verbatim>\<open>spec_relative_orientation\<close> follow the
  wording of the specification, not the code: the Euler xyz angles, in degrees, of the
  orientation of an object, and of the rotation that maps the orientation of the camera to the
  orientation of the target.
\<close>

definition orientation_of :: "quat4 \<Rightarrow> exn + rotation" where
  "orientation_of q =
     (case q of (w, x, y, z) \<Rightarrow>
        let n = sqrt (w * w + x * x + y * y + z * z)
        in if n = 0 then Inl ValueError else Inr (Rotation (x / n) (y / n) (z / n) (w / n)))"

definition spec_rotation_degrees :: "physical_object \<Rightarrow> exn + vec3" where
  "spec_rotation_degrees obj =
     and_then (orientation_of (obj_quaternion obj)) (\<lambda>rot. Inr (as_euler_xyz rot True))"

definition spec_relative_orientation :: "quat4 \<Rightarrow> quat4 \<Rightarrow> exn + vec3" where
  "spec_relative_orientation camera_quaternion target_quaternion =
     and_then (orientation_of camera_quaternion) (\<lambda>cam_rot.
       and_then (orientation_of target_quaternion) (\<lambda>target_rot.
         Inr (as_euler_xyz (rotation_mul (rotation_inv cam_rot) target_rot) True)))"

text \<open>
  A target pallet with the base rotation (a quarter turn about x) and no jiggle, and a camera
  one unit from it along x at the same height.
\<close>

definition pallet0 :: physical_object where
  "pallet0 =
     \<lparr>obj_class = FileBasedObject ''assets/pallet/euro.obj'' ''assets/pallet/euro.obj'',
      obj_name = ''target_euro.obj'', obj_scale = (1, 1, 1), obj_position = (1, 2, 1 / 2),
      obj_quaternion = (sqrt 2 / 2, sqrt 2 / 2, 0, 0)\<rparr>"

definition camera0 :: camera where
  "camera0 =
     \<lparr>cam_position = (2, 2, 1 / 2), cam_look_at = (1, 2, 1 / 2), focal_length = 5,
      min_render_distance = 0.1, max_render_distance = 1000\<rparr>"

section \<open>Properties of the camera rig sampler\<close>

lemma rng_tail_const: "rng_tail (rng_const u k g) = rng_const u k g"
  by (simp add: rng_tail_def rng_const_def)

lemma camera_ring_length: "length (fst (camera_ring t a ds r)) = length ds"
  by (induction ds arbitrary: r) (simp_all add: Let_def case_prod_unfold)

lemma camera_ring_nth:
  "k < length ds \<Longrightarrow>
   vx (cam_position (fst (camera_ring t a ds r) ! k)) = vx t + ds ! k * cos (radians a) \<and>
   vy (cam_position (fst (camera_ring t a ds r) ! k)) = vy t + ds ! k * sin (radians a)"
proof (induction ds arbitrary: r k)
  case Nil
  then show ?case by simp
next
  case (Cons d ds)
  show ?case
  proof (cases k)
    case 0
    then show ?thesis
      by (simp add: Let_def vx_def vy_def case_prod_unfold)
  next
    case (Suc j)
    with Cons.prems have "j < length ds" by simp
    from Cons.IH [OF this] Suc show ?thesis
      by (simp add: Let_def case_prod_unfold)
  qed
qed

lemma camera_ring_Cons:
  "fst (camera_ring t a (d # ds) r) =
     \<lparr>cam_position = (vx t + d * cos (radians a), vy t + d * sin (radians a),
         max (vz t + fst (uniform (- 0.2) 0.2 r)) 0.1),
       cam_look_at = t,
       focal_length = fst (gauss 5 2 (snd (uniform (- 0.2) 0.2 r))),
       min_render_distance = 0.1, max_render_distance = 100\<rparr> #
     fst (camera_ring t a ds (snd (gauss 5 2 (snd (uniform (- 0.2) 0.2 r)))))"
  by (simp add: Let_def case_prod_unfold)

lemma camera_ring_z: "c \<in> set (fst (camera_ring t a ds r)) \<Longrightarrow> 0.1 \<le> vz (cam_position c)"
proof (induction ds arbitrary: r)
  case Nil
  then show ?case by simp
next
  case (Cons d ds)
  let ?r' = "snd (gauss 5 2 (snd (uniform (- 0.2) 0.2 r)))"
  from Cons.prems consider
    (head) "vz (cam_position c) = max (vz t + fst (uniform (- 0.2) 0.2 r)) 0.1" |
    (tail) "c \<in> set (fst (camera_ring t a ds ?r'))"
    unfolding camera_ring_Cons by (auto simp: vz_def)
  then show ?case
  proof cases
    case head
    have "(0.1::real) \<le> max (vz t + fst (uniform (- 0.2) 0.2 r)) 0.1"
      by (rule max.cobounded2)
    with head show ?thesis by simp
  next
    case tail
    then show ?thesis by (rule Cons.IH)
  qed
qed

lemma camera_rings_z:
  "c \<in> set (fst (camera_rings t n is ds r)) \<Longrightarrow> 0.1 \<le> vz (cam_position c)"
proof (induction "is" arbitrary: r)
  case Nil
  then show ?case by simp
next
  case (Cons i "is")
  obtain cs r1 where ring: "camera_ring t ((360 / real_of_int n) * real i) ds r = (cs, r1)"
    by (cases "camera_ring t ((360 / real_of_int n) * real i) ds r")
  obtain cs' r2 where rest: "camera_rings t n is ds r1 = (cs', r2)"
    by (cases "camera_rings t n is ds r1")
  from Cons.prems ring rest have "c \<in> set cs \<or> c \<in> set cs'"
    by (simp add: Let_def)
  then show ?case
  proof
    assume "c \<in> set cs"
    with ring have "c \<in> set (fst (camera_ring t ((360 / real_of_int n) * real i) ds r))"
      by simp
    then show ?thesis by (rule camera_ring_z)
  next
    assume "c \<in> set cs'"
    with rest have "c \<in> set (fst (camera_rings t n is ds r1))"
      by simp
    then show ?thesis by (rule Cons.IH)
  qed
qed

text \<open>
  C9: every camera pose produced by the camera rig sampler has z coordinate at least 0.1,
  whatever the target position (also below or on the ground) and whatever the generator
  draws for the vertical jitter.
\<close>

theorem setup_cameras_z_floor:
  "\<forall>c \<in> set (fst (setup_cameras target_position num_angles distances r)).
     0.1 \<le> vz (cam_position c)"
  unfolding setup_cameras_def using camera_rings_z by blast

theorem setup_cameras_z_floor_witness:
  "fst (setup_cameras (0, 0, - 5) 1 [1] (rng_const 0 0 0)) =
     [\<lparr>cam_position = (1, 0, 0.1), cam_look_at = (0, 0, - 5), focal_length = 5,
       min_render_distance = 0.1, max_render_distance = 100\<rparr>] \<and>
   0.1 \<le> vz (cam_position (hd (fst (setup_cameras (0, 0, - 5) 1 [1] (rng_const 0 0 0)))))"
proof -
  have run: "fst (setup_cameras (0, 0, - 5) 1 [1] (rng_const 0 0 0)) =
     [\<lparr>cam_position = (1, 0, 0.1), cam_look_at = (0, 0, - 5), focal_length = 5,
       min_render_distance = 0.1, max_render_distance = 100\<rparr>]"
    by (simp add: setup_cameras_def range_py_def Let_def uniform_def gauss_def
        rng_const_def rng_tail_def radians_def vx_def vy_def vz_def case_prod_unfold)
  then have "hd (fst (setup_cameras (0, 0, - 5) 1 [1] (rng_const 0 0 0))) \<in>
     set (fst (setup_cameras (0, 0, - 5) 1 [1] (rng_const 0 0 0)))"
    by simp
  with setup_cameras_z_floor [of "(0, 0, - 5)" 1 "[1]" "rng_const 0 0 0"] run
  show ?thesis by blast
qed

lemma camera_rings_Cons:
  "fst (camera_rings t n (i # is) ds r) =
     fst (camera_ring t ((360 / real_of_int n) * real i) ds r) @
     fst (camera_rings t n is ds (snd (camera_ring t ((360 / real_of_int n) * real i) ds r)))"
  by (simp add: Let_def case_prod_unfold)

lemma camera_rings_length: "length (fst (camera_rings t n is ds r)) = length is * length ds"
proof (induction "is" arbitrary: r)
  case Nil
  then show ?case by simp
next
  case (Cons i "is")
  show ?case
    unfolding camera_rings_Cons by (simp add: camera_ring_length Cons.IH)
qed

lemma camera_rings_nth:
  "j < length is \<Longrightarrow> k < length ds \<Longrightarrow>
   vx (cam_position (fst (camera_rings t n is ds r) ! (j * length ds + k))) =
     vx t + ds ! k * cos (radians ((360 / real_of_int n) * real (is ! j))) \<and>
   vy (cam_position (fst (camera_rings t n is ds r) ! (j * length ds + k))) =
     vy t + ds ! k * sin (radians ((360 / real_of_int n) * real (is ! j)))"
proof (induction "is" arbitrary: r j)
  case Nil
  then show ?case by simp
next
  case (Cons i "is")
  let ?a = "(360 / real_of_int n) * real i"
  let ?ring = "fst (camera_ring t ?a ds r)"
  let ?rest = "fst (camera_rings t n is ds (snd (camera_ring t ?a ds r)))"
  have len: "length ?ring = length ds"
    by (rule camera_ring_length)
  show ?case
  proof (cases j)
    case 0
    with Cons.prems len have "(?ring @ ?rest) ! (j * length ds + k) = ?ring ! k"
      by (simp add: nth_append)
    with camera_ring_nth [OF Cons.prems(2), of t ?a r] 0 show ?thesis
      unfolding camera_rings_Cons by simp
  next
    case (Suc j')
    with Cons.prems have j': "j' < length is" by simp
    from Suc len have "(?ring @ ?rest) ! (j * length ds + k) = ?rest ! (j' * length ds + k)"
      by (simp add: nth_append)
    with Cons.IH [OF j' Cons.prems(2)] Suc show ?thesis
      unfolding camera_rings_Cons by simp
  qed
qed

text \<open>
  C4: for every \<^verbatim>\<open>num_angles > 0\<close> and every list of distances, the camera rig sampler
  returns exactly \<^verbatim>\<open>num_angles * len(distances)\<close> poses, and the pose at list index
  \<^verbatim>\<open>i * len(distances) + k\<close> (angle index \<^verbatim>\<open>i\<close> outer, distance index \<^verbatim>\<open>k\<close> inner) has
  x = target.x + d * cos(i * 360 / num_angles degrees) and
  y = target.y + d * sin(i * 360 / num_angles degrees), where \<^verbatim>\<open>d\<close> is the k-th distance.
\<close>

theorem setup_cameras_grid:
  assumes "0 < num_angles"
  shows "length (fst (setup_cameras target_position num_angles distances r)) =
           nat num_angles * length distances \<and>
         (\<forall>i < nat num_angles. \<forall>k < length distances.
            vx (cam_position (fst (setup_cameras target_position num_angles distances r) !
                  (i * length distances + k))) =
              vx target_position +
              distances ! k * cos (radians (real i * 360 / real_of_int num_angles)) \<and>
            vy (cam_position (fst (setup_cameras target_position num_angles distances r) !
                  (i * length distances + k))) =
              vy target_position +
              distances ! k * sin (radians (real i * 360 / real_of_int num_angles)))"
proof (intro conjI allI impI)
  show "length (fst (setup_cameras target_position num_angles distances r)) =
          nat num_angles * length distances"
    by (simp add: setup_cameras_def range_py_def camera_rings_length)
next
  fix i k
  assume i: "i < nat num_angles" and k: "k < length distances"
  from i have "i < length (range_py num_angles)" and nth: "range_py num_angles ! i = i"
    by (simp_all add: range_py_def)
  from camera_rings_nth [OF this(1) k, of target_position num_angles r] nth
  have grid:
    "vx (cam_position (fst (setup_cameras target_position num_angles distances r) !
          (i * length distances + k))) =
       vx target_position +
       distances ! k * cos (radians ((360 / real_of_int num_angles) * real i))"
    "vy (cam_position (fst (setup_cameras target_position num_angles distances r) !
          (i * length distances + k))) =
       vy target_position +
       distances ! k * sin (radians ((360 / real_of_int num_angles) * real i))"
    by (simp_all add: setup_cameras_def)
  have angle: "(360 / real_of_int num_angles) * real i = real i * 360 / real_of_int num_angles"
    by simp
  from grid show
    "vx (cam_position (fst (setup_cameras target_position num_angles distances r) !
          (i * length distances + k))) =
       vx target_position +
       distances ! k * cos (radians (real i * 360 / real_of_int num_angles))"
    unfolding angle by simp
  from grid show
    "vy (cam_position (fst (setup_cameras target_position num_angles distances r) !
          (i * length distances + k))) =
       vy target_position +
       distances ! k * sin (radians (real i * 360 / real_of_int num_angles))"
    unfolding angle by simp
qed

theorem setup_cameras_grid_witness:
  "(0::int) < 2 \<and>
   length (fst (setup_cameras (3, 4, 0) 2 [1, 2] (rng_const 0 0 0))) = 4 \<and>
   vx (cam_position (fst (setup_cameras (3, 4, 0) 2 [1, 2] (rng_const 0 0 0)) ! 3)) = 1 \<and>
   vy (cam_position (fst (setup_cameras (3, 4, 0) 2 [1, 2] (rng_const 0 0 0)) ! 3)) = 4"
proof -
  have pos: "(0::int) < 2" by simp
  note grid = setup_cameras_grid [OF pos, of "(3, 4, 0)" "[1, 2]" "rng_const 0 0 0"]
  from grid have len: "length (fst (setup_cameras (3, 4, 0) 2 [1, 2] (rng_const 0 0 0))) = 4"
    by simp
  from grid have
    "\<forall>i < nat 2. \<forall>k < length [1, 2 :: real].
       vx (cam_position (fst (setup_cameras (3, 4, 0) 2 [1, 2] (rng_const 0 0 0)) !
             (i * length [1, 2 :: real] + k))) =
         vx (3, 4, 0) + [1, 2] ! k * cos (radians (real i * 360 / real_of_int 2)) \<and>
       vy (cam_position (fst (setup_cameras (3, 4, 0) 2 [1, 2] (rng_const 0 0 0)) !
             (i * length [1, 2 :: real] + k))) =
         vy (3, 4, 0) + [1, 2] ! k * sin (radians (real i * 360 / real_of_int 2))"
    by (rule conjunct2)
  from this [rule_format, of 1 1] have
    "vx (cam_position (fst (setup_cameras (3, 4, 0) 2 [1, 2] (rng_const 0 0 0)) ! 3)) = 1"
    "vy (cam_position (fst (setup_cameras (3, 4, 0) 2 [1, 2] (rng_const 0 0 0)) ! 3)) = 4"
    by (simp_all add: radians_def vx_def vy_def numeral_3_eq_3)
  with pos len show ?thesis by simp
qed

section \<open>Properties of the scene builders\<close>

lemma and_then_Inr: "and_then m f = Inr y \<longleftrightarrow> (\<exists>x. m = Inr x \<and> f x = Inr y)"
  by (cases m) (simp_all add: and_then_def)

lemma and_then_simps: "and_then (Inr x) f = f x" "and_then (Inl e) f = Inl e"
  by (simp_all add: and_then_def)

lemma choice_nonempty: "xs \<noteq> [] \<Longrightarrow> choice xs r = Inr (xs ! (index_draw (r 0) mod length xs), rng_tail r)"
  by (simp add: choice_def)

lemma choice_Inr: "choice xs r = Inr p \<Longrightarrow> xs \<noteq> []"
  by (auto simp: choice_def split: if_splits)

lemma lights_of_append: "lights_of (xs @ ys) = lights_of xs @ lights_of ys"
  by (induction xs rule: lights_of.induct) simp_all

lemma physical_of_append: "physical_of (xs @ ys) = physical_of xs @ physical_of ys"
  by (induction xs rule: physical_of.induct) simp_all

lemma physical_of_map: "physical_of (map PhysicalObject os) = os" "lights_of (map PhysicalObject os) = []"
  by (induction os) simp_all

lemma assets_apply_texture: "assets (apply_texture sc obj tex s) = assets sc"
  by (simp add: apply_texture_def)

lemma assets_scene_add: "assets (scene_add sc a) = assets sc @ [a]"
  by (simp add: scene_add_def)

lemma add_walls_assets:
  "add_walls v ws sc r = Inr (sc', r') \<Longrightarrow> assets sc' = assets sc @ map PhysicalObject ws"
proof (induction ws arbitrary: sc r)
  case Nil
  then show ?case by simp
next
  case (Cons w ws)
  from Cons.prems obtain tex r1 where
    rest: "add_walls v ws (apply_texture (scene_add sc (PhysicalObject w)) w tex
             (fst (uniform 50 150 r1))) (snd (uniform 50 150 r1)) = Inr (sc', r')"
    by (auto simp: and_then_Inr Let_def case_prod_unfold)
  from Cons.IH [OF rest] show ?case
    by (simp add: assets_apply_texture assets_scene_add)
qed

lemma add_walls_ok:
  "v \<noteq> [] \<Longrightarrow> \<exists>sc' r'. add_walls v ws sc r = Inr (sc', r')"
proof (induction ws arbitrary: sc r)
  case Nil
  then show ?case by simp
next
  case (Cons w ws)
  then show ?case
    by (simp add: choice_nonempty and_then_simps Let_def case_prod_unfold)
qed


lemma setup_building_unfold:
  "setup_building cat sc r =
     and_then
       (choice (floor_textures cat @ wood_textures cat @ metal_textures cat @ plastic_textures cat)
          (snd (uniform 8 20 (snd (uniform 20 70 (snd (uniform 30 100 r)))))))
       (\<lambda>p. and_then
          (add_walls
             (floor_textures cat @ wood_textures cat @ metal_textures cat @ plastic_textures cat)
             (tl (building_objects (sampled_dims r)))
             (apply_texture (scene_add sc (PhysicalObject (hd (building_objects (sampled_dims r)))))
                (hd (building_objects (sampled_dims r))) (fst p)
                (fst (uniform 100 300 (snd p))))
             (snd (uniform 100 300 (snd p))))
          (\<lambda>q. Inr (sampled_dims r, fst q, snd q)))"
  by (simp add: setup_building_def Let_def case_prod_unfold building_objects_def sampled_dims_def
      del: add_walls.simps)

lemma and_then_InrI: "m = Inr x \<Longrightarrow> f x = Inr y \<Longrightarrow> and_then m f = Inr y"
  by (simp add: and_then_def)

lemma setup_building_assets:
  assumes "setup_building cat sc r = Inr (dims, sc', r')"
  shows "assets sc' = assets sc @ map PhysicalObject (building_objects dims)"
proof -
  let ?v = "floor_textures cat @ wood_textures cat @ metal_textures cat @ plastic_textures cat"
  let ?d = "sampled_dims r"
  from assms obtain p q where
    walls: "add_walls ?v (tl (building_objects ?d))
              (apply_texture (scene_add sc (PhysicalObject (hd (building_objects ?d))))
                (hd (building_objects ?d)) (fst p) (fst (uniform 100 300 (snd p))))
              (snd (uniform 100 300 (snd p))) = Inr q" and
    res: "dims = ?d" "sc' = fst q" "r' = snd q"
    unfolding setup_building_unfold and_then_Inr by auto
  from walls res have "add_walls ?v (tl (building_objects ?d))
              (apply_texture (scene_add sc (PhysicalObject (hd (building_objects ?d))))
                (hd (building_objects ?d)) (fst p) (fst (uniform 100 300 (snd p))))
              (snd (uniform 100 300 (snd p))) = Inr (sc', r')"
    by simp
  from add_walls_assets [OF this] have
    "assets sc' = assets sc @ PhysicalObject (hd (building_objects ?d)) #
       map PhysicalObject (tl (building_objects ?d))"
    by (simp add: assets_apply_texture assets_scene_add)
  also have "PhysicalObject (hd (building_objects ?d)) # map PhysicalObject (tl (building_objects ?d)) =
      map PhysicalObject (building_objects ?d)"
    by (simp add: building_objects_def)
  finally show ?thesis
    unfolding res(1) .
qed

lemma setup_building_ok:
  assumes "wood_textures cat \<noteq> []"
  shows "\<exists>dims sc' r'. setup_building cat sc r = Inr (dims, sc', r')"
proof -
  let ?v = "floor_textures cat @ wood_textures cat @ metal_textures cat @ plastic_textures cat"
  let ?d = "sampled_dims r"
  let ?r3 = "snd (uniform 8 20 (snd (uniform 20 70 (snd (uniform 30 100 r)))))"
  from assms have v: "?v \<noteq> []" by simp
  obtain p where p: "choice ?v ?r3 = Inr p"
    using choice_nonempty [OF v] by blast
  obtain sc' r' where walls:
    "add_walls ?v (tl (building_objects ?d))
       (apply_texture (scene_add sc (PhysicalObject (hd (building_objects ?d))))
         (hd (building_objects ?d)) (fst p) (fst (uniform 100 300 (snd p))))
       (snd (uniform 100 300 (snd p))) = Inr (sc', r')"
    using add_walls_ok [OF v] by blast
  have "setup_building cat sc r = Inr (?d, sc', r')"
    unfolding setup_building_unfold
    by (rule and_then_InrI [OF p], rule and_then_InrI [OF walls]) simp
  then show ?thesis by blast
qed

lemma add_lights_physical:
  "physical_of (assets (fst (add_lights is d sc r))) = physical_of (assets sc)"
  by (induction "is" arbitrary: sc r)
    (simp_all add: Let_def case_prod_unfold assets_scene_add physical_of_append)

lemma add_lights_lights:
  "map is_directional (lights_of (assets (fst (add_lights is d sc r)))) =
     map is_directional (lights_of (assets sc)) @ map (\<lambda>i. i = 0) is"
  by (induction "is" arbitrary: sc r)
    (simp_all add: Let_def case_prod_unfold assets_scene_add lights_of_append)

lemma add_random_lighting_physical:
  "physical_of (assets (fst (add_random_lighting sc n d r))) = physical_of (assets sc)"
  by (simp add: add_random_lighting_def Let_def case_prod_unfold add_lights_physical)

lemma add_random_lighting_lights:
  "map is_directional (lights_of (assets (fst (add_random_lighting sc n d r)))) =
     map is_directional (lights_of (assets sc)) @ map (\<lambda>i. i = 0) (range_py n)"
  by (simp add: add_random_lighting_def Let_def case_prod_unfold add_lights_lights)


lemma quaternion_norm2_mul:
  "quaternion_norm2 (quaternion_mul p q) = quaternion_norm2 p * quaternion_norm2 q"
  by (cases p; cases q) (simp add: quaternion_norm2_def quaternion_mul_def algebra_simps)

lemma quaternion_norm2_axis:
  "quaternion_norm2 (quaternion_axis_angle (1, 0, 0) a) = 1"
  "quaternion_norm2 (quaternion_axis_angle (0, 1, 0) a) = 1"
  "quaternion_norm2 (quaternion_axis_angle (0, 0, 1) a) = 1"
  by (simp_all add: quaternion_norm2_def quaternion_axis_angle_def Let_def
      flip: power2_eq_square)

lemma jiggle_rotation_unit: "quaternion_norm2 (fst (jiggle_rotation r)) = 1"
  by (simp add: jiggle_rotation_def Let_def case_prod_unfold quaternion_norm2_mul
      quaternion_norm2_axis)

lemma scattered_object_unit: "unit_file_object (fst (scattered_object p r))"
  by (simp add: scattered_object_def unit_file_object_def Let_def case_prod_unfold
      jiggle_rotation_unit)

lemma target_object_unit: "unit_file_object (fst (target_object p d r))"
  by (simp add: target_object_def unit_file_object_def Let_def case_prod_unfold
      jiggle_rotation_unit)

lemma add_objects_Cons:
  "add_objects cat c (i # is) texs sc r =
     and_then (choice (asset_category cat c) r) (\<lambda>p.
       and_then (choice texs (snd (scattered_object (fst p) (snd p)))) (\<lambda>q.
         add_objects cat c is texs
           (apply_texture (scene_add sc (PhysicalObject (fst (scattered_object (fst p) (snd p)))))
              (fst (scattered_object (fst p) (snd p))) (fst q) (fst (uniform 0.5 1.5 (snd q))))
           (snd (uniform 0.5 1.5 (snd q)))))"
  by (simp add: Let_def case_prod_unfold)

lemma add_objects_view:
  "add_objects cat c is texs sc r = Inr (sc', r') \<Longrightarrow>
   lights_of (assets sc') = lights_of (assets sc) \<and>
   (\<exists>objs. physical_of (assets sc') = physical_of (assets sc) @ objs \<and>
      length objs = length is \<and> list_all unit_file_object objs)"
proof (induction "is" arbitrary: sc r)
  case Nil
  then show ?case by simp
next
  case (Cons i "is")
  from Cons.prems obtain p q where
    rest: "add_objects cat c is texs
           (apply_texture (scene_add sc (PhysicalObject (fst (scattered_object (fst p) (snd p)))))
              (fst (scattered_object (fst p) (snd p))) (fst q) (fst (uniform 0.5 1.5 (snd q))))
           (snd (uniform 0.5 1.5 (snd q))) = Inr (sc', r')"
    unfolding add_objects_Cons and_then_Inr by blast
  let ?o = "fst (scattered_object (fst p) (snd p))"
  from Cons.IH [OF rest] obtain objs where
    l: "lights_of (assets sc') = lights_of (assets sc)" and
    o: "physical_of (assets sc') = physical_of (assets sc) @ ?o # objs" and
    n: "length objs = length is" and u: "list_all unit_file_object objs"
    by (auto simp: assets_apply_texture assets_scene_add lights_of_append physical_of_append)
  from n u have "length (?o # objs) = length (i # is)" "list_all unit_file_object (?o # objs)"
    by (simp_all add: scattered_object_unit)
  with l o show ?case by blast
qed

lemma add_objects_ok:
  "asset_category cat c \<noteq> [] \<Longrightarrow> texs \<noteq> [] \<Longrightarrow>
   \<exists>sc' r'. add_objects cat c is texs sc r = Inr (sc', r')"
proof (induction "is" arbitrary: sc r)
  case Nil
  then show ?case by simp
next
  case (Cons i "is")
  obtain p where p: "choice (asset_category cat c) r = Inr p"
    using choice_nonempty [OF Cons.prems(1)] by blast
  obtain q where q: "choice texs (snd (scattered_object (fst p) (snd p))) = Inr q"
    using choice_nonempty [OF Cons.prems(2)] by blast
  from Cons.IH [OF Cons.prems] obtain sc' r' where
    "add_objects cat c is texs
           (apply_texture (scene_add sc (PhysicalObject (fst (scattered_object (fst p) (snd p)))))
              (fst (scattered_object (fst p) (snd p))) (fst q) (fst (uniform 0.5 1.5 (snd q))))
           (snd (uniform 0.5 1.5 (snd q))) = Inr (sc', r')"
    by blast
  then have "add_objects cat c (i # is) texs sc r = Inr (sc', r')"
    unfolding add_objects_Cons
    by (intro and_then_InrI [OF p] and_then_InrI [OF q])
  then show ?case by blast
qed

lemma place_pallet_unfold:
  "place_pallet cat sc d r =
     and_then (choice (pallet_assets cat) r) (\<lambda>p.
       and_then (choice (wood_textures cat) (snd (target_object (fst p) d (snd p)))) (\<lambda>q.
         Inr (fst (target_object (fst p) d (snd p)),
              apply_texture (scene_add sc (PhysicalObject (fst (target_object (fst p) d (snd p)))))
                (fst (target_object (fst p) d (snd p))) (fst q) (fst (uniform 0.5 1.5 (snd q))),
              snd (uniform 0.5 1.5 (snd q)))))"
  by (simp add: place_pallet_def Let_def case_prod_unfold)

lemma place_pallet_view:
  assumes "place_pallet cat sc d r = Inr (obj, sc', r')"
  shows "assets sc' = assets sc @ [PhysicalObject obj]" and "unit_file_object obj"
proof -
  from assms obtain p q where
    "obj = fst (target_object (fst p) d (snd p))"
    "sc' = apply_texture (scene_add sc (PhysicalObject (fst (target_object (fst p) d (snd p)))))
                (fst (target_object (fst p) d (snd p))) (fst q) (fst (uniform 0.5 1.5 (snd q)))"
    unfolding place_pallet_unfold and_then_Inr by auto
  then show "assets sc' = assets sc @ [PhysicalObject obj]" and "unit_file_object obj"
    by (simp_all add: assets_apply_texture assets_scene_add target_object_unit)
qed

lemma place_pallet_ok:
  assumes "pallet_assets cat \<noteq> []" "wood_textures cat \<noteq> []"
  shows "\<exists>obj sc' r'. place_pallet cat sc d r = Inr (obj, sc', r')"
proof -
  obtain p where p: "choice (pallet_assets cat) r = Inr p"
    using choice_nonempty [OF assms(1)] by blast
  obtain q where q: "choice (wood_textures cat) (snd (target_object (fst p) d (snd p))) = Inr q"
    using choice_nonempty [OF assms(2)] by blast
  show ?thesis
    unfolding place_pallet_unfold by (simp add: and_then_def p q)
qed

section \<open>Properties of scene generation\<close>

lemma from_quat_ok: "quaternion_norm2 q \<noteq> 0 \<Longrightarrow> \<exists>rot. from_quat q = Inr rot"
  by (cases q) (simp add: from_quat_def quaternion_norm2_def Let_def)

lemma object_record_ok:
  "quaternion_norm2 (obj_quaternion obj) \<noteq> 0 \<Longrightarrow> \<exists>rec. object_record obj = Inr rec"
  using from_quat_ok [of "obj_quaternion obj"]
  by (auto simp: object_record_def and_then_def)

lemma object_records_ok:
  "list_all (\<lambda>obj. quaternion_norm2 (obj_quaternion obj) \<noteq> 0) (physical_of as) \<Longrightarrow>
   \<exists>recs. object_records as = Inr recs"
proof (induction as rule: physical_of.induct)
  case 1
  then show ?case by simp
next
  case (2 l as)
  then show ?case by simp
next
  case (3 obj as)
  then obtain rec recs where "object_record obj = Inr rec" "object_records as = Inr recs"
    using object_record_ok [of obj] by auto
  then show ?case by (simp add: and_then_def)
qed

lemma object_records_view:
  "object_records as = Inr recs \<Longrightarrow>
   list_all2 (\<lambda>obj rec. object_record obj = Inr rec) (physical_of as) recs"
proof (induction as arbitrary: recs rule: physical_of.induct)
  case 1
  then show ?case by simp
next
  case (2 l as)
  then show ?case by simp
next
  case (3 obj as)
  from "3.prems" obtain rec recs' where
    "object_record obj = Inr rec" "object_records as = Inr recs'" "recs = rec # recs'"
    by (auto simp: and_then_Inr)
  with "3.IH" show ?case by simp
qed

lemma object_record_name: "object_record obj = Inr rec \<Longrightarrow> rec_name rec = obj_name obj"
  by (auto simp: object_record_def and_then_Inr)

lemma filter_is_Light: "length (filter is_Light as) = length (lights_of as)"
  by (induction as rule: lights_of.induct) simp_all

lemma scene_metadata_of_view:
  assumes "scene_metadata_of idx dims sc = Inr md"
  shows "num_lights (lighting md) = length (lights_of (assets sc))"
    and "object_records (assets sc) = Inr (objects md)"
  using assms by (auto simp: scene_metadata_of_def and_then_Inr filter_is_Light)

lemma scene_metadata_of_ok:
  "list_all (\<lambda>obj. quaternion_norm2 (obj_quaternion obj) \<noteq> 0) (physical_of (assets sc)) \<Longrightarrow>
   \<exists>md. scene_metadata_of idx dims sc = Inr md"
  using object_records_ok [of "assets sc"] by (auto simp: scene_metadata_of_def and_then_def)

lemma path_join_one_nonempty: "b \<noteq> [] \<Longrightarrow> path_join a [b] \<noteq> []"
  by simp

lemma relpath_ok: "path \<noteq> [] \<Longrightarrow> \<exists>s. relpath cwd path start = Inr s"
  by (simp add: relpath_def Let_def split: list.split)

lemma save_render_data_ok:
  assumes "quaternion_norm2 cq \<noteq> 0" "quaternion_norm2 (obj_quaternion pallet) \<noteq> 0"
  shows "\<exists>doc files. save_render_data cwd od si ci cam cq pallet = Inr (doc, files)"
proof -
  obtain cr where cr: "from_quat cq = Inr cr" using from_quat_ok [OF assms(1)] by blast
  obtain pr where pr: "from_quat (obj_quaternion pallet) = Inr pr"
    using from_quat_ok [OF assms(2)] by blast
  let ?cd = "path_join (path_join od [''scene_'' @ str_nat si]) [''cam_'' @ str_nat ci]"
  obtain a where a: "relpath cwd (path_join ?cd [''rgba.png'']) od = Inr a"
    using relpath_ok [of "path_join ?cd [''rgba.png'']"] path_join_one_nonempty [of "''rgba.png''"]
    by blast
  obtain b where b: "relpath cwd (path_join ?cd [''depth.tiff'']) od = Inr b"
    using relpath_ok [of "path_join ?cd [''depth.tiff'']"]
      path_join_one_nonempty [of "''depth.tiff''"]
    by blast
  show ?thesis
    unfolding save_render_data_def Let_def cr pr a b and_then_def by simp
qed

lemma save_cameras_ok:
  assumes "quaternion_norm2 (obj_quaternion pallet) \<noteq> 0"
    and "\<forall>p t. quaternion_norm2 (lq p t) \<noteq> 0"
  shows "\<exists>docs files. save_cameras cwd lq od si pallet cs = Inr (docs, files)"
proof (induction cs)
  case Nil
  then show ?case by simp
next
  case (Cons c cs)
  obtain ci cam where c: "c = (ci, cam)" by (cases c)
  obtain doc files where
    "save_render_data cwd od si ci cam (lq (cam_position cam) (cam_look_at cam)) pallet =
       Inr (doc, files)"
    using save_render_data_ok [OF assms(2) [rule_format] assms(1)] by blast
  with Cons c show ?case by (auto simp: and_then_def)
qed

lemma randint_range:
  "a \<le> b \<Longrightarrow> a \<le> fst (randint a b r) \<and> fst (randint a b r) \<le> b"
proof -
  assume "a \<le> b"
  then have "0 < nat (b - a + 1)" by simp
  then have "index_draw (r 0) mod nat (b - a + 1) < nat (b - a + 1)" by simp
  then show ?thesis by (simp add: randint_def)
qed


lemma generate_scene_stages:
  assumes "generate_scene cwd lq cat od idx na ds r = Inr out"
  obtains dims sc1 r1 sc2 r3 sc3 r5 sc4 r7 sc5 r9 tp sc6 r10 md docs files where
    "setup_building cat new_scene r = Inr (dims, sc1, r1)"
    "add_random_lighting sc1 (fst (randint 5 10 r1)) dims (snd (randint 5 10 r1)) = (sc2, r3)"
    "add_random_objects cat sc2 Rack (fst (randint 10 30 r3))
       (metal_textures cat @ plastic_textures cat) (snd (randint 10 30 r3)) = Inr (sc3, r5)"
    "add_random_objects cat sc3 Forklift (fst (randint 5 10 r5))
       (plastic_textures cat @ metal_textures cat) (snd (randint 5 10 r5)) = Inr (sc4, r7)"
    "add_random_objects cat sc4 Pallet (fst (randint 1 5 r7))
       (wood_textures cat) (snd (randint 1 5 r7)) = Inr (sc5, r9)"
    "place_pallet cat sc5 dims r9 = Inr (tp, sc6, r10)"
    "scene_metadata_of idx dims sc6 = Inr md"
    "save_cameras cwd lq od idx tp
       (zip [0..<length (fst (setup_cameras (obj_position tp) na ds r10))]
          (fst (setup_cameras (obj_position tp) na ds r10))) = Inr (docs, files)"
    "out = \<lparr>out_scene = sc6, out_metadata = md, out_cameras = docs,
            out_files = path_join (path_join od [''scene_'' @ str_nat idx]) [''metadata.json'']
                          # files\<rparr>"
proof -
  from assms obtain a where a: "setup_building cat new_scene r = Inr a"
    unfolding generate_scene_def and_then_Inr by blast
  obtain dims sc1 r1 where a': "a = (dims, sc1, r1)" by (cases a)
  obtain sc2 r3 where l:
    "add_random_lighting sc1 (fst (randint 5 10 r1)) dims (snd (randint 5 10 r1)) = (sc2, r3)"
    by (cases "add_random_lighting sc1 (fst (randint 5 10 r1)) dims (snd (randint 5 10 r1))")
  from assms show thesis
    unfolding generate_scene_def a a' and_then_Inr
    apply (simp add: Let_def case_prod_unfold l and_then_Inr del: path_join.simps str_nat.simps)
    apply (elim exE conjE)
    apply (rule that [OF a [unfolded a'] l])
    apply assumption+
    apply (rule sym)
    apply (simp del: path_join.simps str_nat.simps)
    done
qed


lemma assets_new_scene: "assets new_scene = []"
  by (simp add: new_scene_def)

lemma length_range_py: "length (range_py n) = nat n"
  by (simp add: range_py_def)

lemma building_objects_unit:
  "list_all (\<lambda>obj. quaternion_norm2 (obj_quaternion obj) = 1) (building_objects dims)"
  by (simp add: building_objects_def cube_def quaternion_norm2_def)

lemma stages_lights:
  assumes "setup_building cat new_scene r = Inr (dims, sc1, r1)"
    "add_random_lighting sc1 n dims r2 = (sc2, r3)"
    "add_random_objects cat sc2 c1 n1 t1 r4 = Inr (sc3, r5)"
    "add_random_objects cat sc3 c2 n2 t2 r6 = Inr (sc4, r7)"
    "add_random_objects cat sc4 c3 n3 t3 r8 = Inr (sc5, r9)"
    "place_pallet cat sc5 dims r9 = Inr (tp, sc6, r10)"
  shows "map is_directional (lights_of (assets sc6)) = map (\<lambda>i. i = 0) (range_py n)"
proof -
  have "lights_of (assets sc1) = []"
    using setup_building_assets [OF assms(1)] by (simp add: assets_new_scene physical_of_map)
  then have "map is_directional (lights_of (assets sc2)) = map (\<lambda>i. i = 0) (range_py n)"
    using add_random_lighting_lights [of sc1 n dims r2] assms(2) by simp
  moreover have "lights_of (assets sc3) = lights_of (assets sc2)"
    using add_objects_view [OF assms(3) [unfolded add_random_objects_def]] by simp
  moreover have "lights_of (assets sc4) = lights_of (assets sc3)"
    using add_objects_view [OF assms(4) [unfolded add_random_objects_def]] by simp
  moreover have "lights_of (assets sc5) = lights_of (assets sc4)"
    using add_objects_view [OF assms(5) [unfolded add_random_objects_def]] by simp
  moreover have "lights_of (assets sc6) = lights_of (assets sc5)"
    using place_pallet_view(1) [OF assms(6)] by (simp add: lights_of_append)
  ultimately show ?thesis by simp
qed

lemma stages_physical:
  assumes "setup_building cat new_scene r = Inr (dims, sc1, r1)"
    "add_random_lighting sc1 n dims r2 = (sc2, r3)"
    "add_random_objects cat sc2 c1 n1 t1 r4 = Inr (sc3, r5)"
    "add_random_objects cat sc3 c2 n2 t2 r6 = Inr (sc4, r7)"
    "add_random_objects cat sc4 c3 n3 t3 r8 = Inr (sc5, r9)"
  shows "\<exists>objs. physical_of (assets sc5) = building_objects dims @ objs \<and>
           length objs = nat n1 + nat n2 + nat n3 \<and> list_all unit_file_object objs"
proof -
  have p1: "physical_of (assets sc1) = building_objects dims"
    using setup_building_assets [OF assms(1)] by (simp add: assets_new_scene physical_of_map)
  have p2: "physical_of (assets sc2) = building_objects dims"
    using add_random_lighting_physical [of sc1 n dims r2] assms(2) p1 by simp
  obtain o1 where o1: "physical_of (assets sc3) = physical_of (assets sc2) @ o1"
    "length o1 = nat n1" "list_all unit_file_object o1"
    using add_objects_view [OF assms(3) [unfolded add_random_objects_def]]
    by (auto simp: length_range_py)
  obtain o2 where o2: "physical_of (assets sc4) = physical_of (assets sc3) @ o2"
    "length o2 = nat n2" "list_all unit_file_object o2"
    using add_objects_view [OF assms(4) [unfolded add_random_objects_def]]
    by (auto simp: length_range_py)
  obtain o3 where o3: "physical_of (assets sc5) = physical_of (assets sc4) @ o3"
    "length o3 = nat n3" "list_all unit_file_object o3"
    using add_objects_view [OF assms(5) [unfolded add_random_objects_def]]
    by (auto simp: length_range_py)
  have "physical_of (assets sc5) = building_objects dims @ (o1 @ o2 @ o3)"
    "length (o1 @ o2 @ o3) = nat n1 + nat n2 + nat n3"
    "list_all unit_file_object (o1 @ o2 @ o3)"
    using p2 o1 o2 o3 by simp_all
  then show ?thesis by blast
qed

lemma directional_first:
  "0 < n \<Longrightarrow> map (\<lambda>i. i = (0::nat)) [0..<n] = True # replicate (n - 1) False"
proof (induction n)
  case 0
  then show ?case by simp
next
  case (Suc n)
  show ?case
  proof (cases "n = 0")
    case True
    then show ?thesis by simp
  next
    case False
    then have "map (\<lambda>i. i = (0::nat)) [0..<n] = True # replicate (n - 1) False"
      using Suc.IH by simp
    moreover from False have "replicate (n - 1) False @ [False] = replicate n False"
      by (cases n) (simp_all add: replicate_append_same)
    ultimately show ?thesis using False by simp
  qed
qed

lemma generate_scene_lights_aux:
  assumes "generate_scene cwd lq cat od idx na ds r = Inr out"
  shows "\<exists>n. 5 \<le> n \<and> n \<le> 10 \<and>
           num_lights (lighting (out_metadata out)) = n \<and>
           length (lights_of (assets (out_scene out))) = n \<and>
           map is_directional (lights_of (assets (out_scene out))) =
             True # replicate (n - 1) False"
proof -
  from assms obtain dims sc1 r1 sc2 r3 sc3 r5 sc4 r7 sc5 r9 tp sc6 r10 md docs files where
    st: "setup_building cat new_scene r = Inr (dims, sc1, r1)"
    "add_random_lighting sc1 (fst (randint 5 10 r1)) dims (snd (randint 5 10 r1)) = (sc2, r3)"
    "add_random_objects cat sc2 Rack (fst (randint 10 30 r3))
       (metal_textures cat @ plastic_textures cat) (snd (randint 10 30 r3)) = Inr (sc3, r5)"
    "add_random_objects cat sc3 Forklift (fst (randint 5 10 r5))
       (plastic_textures cat @ metal_textures cat) (snd (randint 5 10 r5)) = Inr (sc4, r7)"
    "add_random_objects cat sc4 Pallet (fst (randint 1 5 r7))
       (wood_textures cat) (snd (randint 1 5 r7)) = Inr (sc5, r9)"
    "place_pallet cat sc5 dims r9 = Inr (tp, sc6, r10)" and
    md: "scene_metadata_of idx dims sc6 = Inr md" and
    out: "out_scene out = sc6" "out_metadata out = md"
    by (rule generate_scene_stages) simp
  let ?n = "nat (fst (randint 5 10 r1))"
  have rng: "5 \<le> ?n" "?n \<le> 10" using randint_range [of 5 10 r1] by linarith+
  have m: "map is_directional (lights_of (assets sc6)) = map (\<lambda>i. i = 0) [0..<?n]"
    using stages_lights [OF st] by (simp add: range_py_def)
  then have "length (lights_of (assets sc6)) = ?n"
    using length_map [of is_directional "lights_of (assets sc6)"] by simp
  moreover have "map is_directional (lights_of (assets sc6)) = True # replicate (?n - 1) False"
    using m directional_first [of ?n] rng by simp
  moreover have "num_lights (lighting md) = length (lights_of (assets sc6))"
    using scene_metadata_of_view(1) [OF md] .
  ultimately show ?thesis using rng out by simp
qed


lemma add_random_objects_ok:
  "asset_category cat c \<noteq> [] \<Longrightarrow> texs \<noteq> [] \<Longrightarrow>
   \<exists>sc' r'. add_random_objects cat sc c n texs r = Inr (sc', r')"
  unfolding add_random_objects_def by (rule add_objects_ok)

lemma unit_nonzero:
  "list_all unit_file_object objs \<Longrightarrow>
   list_all (\<lambda>obj. quaternion_norm2 (obj_quaternion obj) \<noteq> 0) objs"
  by (induction objs) (simp_all add: unit_file_object_def)

lemma building_nonzero:
  "list_all (\<lambda>obj. quaternion_norm2 (obj_quaternion obj) \<noteq> 0) (building_objects dims)"
  by (simp add: building_objects_def cube_def quaternion_norm2_def)

lemma generate_scene_ok:
  assumes cat: "catalogs_nonempty cat" and lq: "\<And>p t. quaternion_norm2 (lq p t) \<noteq> 0"
  shows "\<exists>out. generate_scene cwd lq cat od idx na ds r = Inr out"
proof -
  from cat have ne: "pallet_assets cat \<noteq> []" "rack_assets cat \<noteq> []"
    "forklift_assets cat \<noteq> []" "wood_textures cat \<noteq> []" "metal_textures cat \<noteq> []"
    "plastic_textures cat \<noteq> []"
    by (simp_all add: catalogs_nonempty_def)
  obtain dims sc1 r1 where s1: "setup_building cat new_scene r = Inr (dims, sc1, r1)"
    using setup_building_ok [OF ne(4)] by blast
  obtain sc2 r3 where s2:
    "add_random_lighting sc1 (fst (randint 5 10 r1)) dims (snd (randint 5 10 r1)) = (sc2, r3)"
    by (cases "add_random_lighting sc1 (fst (randint 5 10 r1)) dims (snd (randint 5 10 r1))")
  obtain sc3 r5 where s3: "add_random_objects cat sc2 Rack (fst (randint 10 30 r3))
       (metal_textures cat @ plastic_textures cat) (snd (randint 10 30 r3)) = Inr (sc3, r5)"
    using add_random_objects_ok [of cat Rack "metal_textures cat @ plastic_textures cat" sc2
        "fst (randint 10 30 r3)" "snd (randint 10 30 r3)"] ne
    by auto
  obtain sc4 r7 where s4: "add_random_objects cat sc3 Forklift (fst (randint 5 10 r5))
       (plastic_textures cat @ metal_textures cat) (snd (randint 5 10 r5)) = Inr (sc4, r7)"
    using add_random_objects_ok [of cat Forklift "plastic_textures cat @ metal_textures cat" sc3
        "fst (randint 5 10 r5)" "snd (randint 5 10 r5)"] ne
    by auto
  obtain sc5 r9 where s5: "add_random_objects cat sc4 Pallet (fst (randint 1 5 r7))
       (wood_textures cat) (snd (randint 1 5 r7)) = Inr (sc5, r9)"
    using add_random_objects_ok [of cat Pallet "wood_textures cat" sc4
        "fst (randint 1 5 r7)" "snd (randint 1 5 r7)"] ne
    by auto
  obtain tp sc6 r10 where s6: "place_pallet cat sc5 dims r9 = Inr (tp, sc6, r10)"
    using place_pallet_ok [OF ne(1) ne(4)] by blast
  obtain objs where objs: "physical_of (assets sc5) = building_objects dims @ objs"
    "list_all unit_file_object objs"
    using stages_physical [OF s1 s2 s3 s4 s5] by blast
  have tp: "unit_file_object tp" and a6: "assets sc6 = assets sc5 @ [PhysicalObject tp]"
    using place_pallet_view [OF s6] by simp_all
  have "list_all (\<lambda>obj. quaternion_norm2 (obj_quaternion obj) \<noteq> 0) (physical_of (assets sc6))"
    using objs tp unit_nonzero [of objs] building_nonzero [of dims]
    by (simp add: a6 physical_of_append unit_file_object_def)
  then obtain md where s7: "scene_metadata_of idx dims sc6 = Inr md"
    using scene_metadata_of_ok by blast
  from tp have "quaternion_norm2 (obj_quaternion tp) \<noteq> 0" by (simp add: unit_file_object_def)
  moreover from lq have "\<forall>p t. quaternion_norm2 (lq p t) \<noteq> 0" by blast
  ultimately obtain docs files where s8: "save_cameras cwd lq od idx tp
       (zip [0..<length (fst (setup_cameras (obj_position tp) na ds r10))]
          (fst (setup_cameras (obj_position tp) na ds r10))) = Inr (docs, files)"
    using save_cameras_ok [of tp lq] by blast
  show ?thesis
    unfolding generate_scene_def
    by (simp add: s1 s2 s3 s4 s5 s6 s7 s8 and_then_simps Let_def case_prod_unfold
        del: path_join.simps str_nat.simps)
qed

lemma look_down_nonzero: "quaternion_norm2 (look_down p t) \<noteq> 0"
  by (simp add: look_down_def quaternion_norm2_def)

lemma cat0_nonempty: "catalogs_nonempty cat0"
  by (simp add: catalogs_nonempty_def cat0_def)

lemma run0_ok: "\<exists>out. run0 = Inr out"
  unfolding run0_def by (rule generate_scene_ok [OF cat0_nonempty look_down_nonzero])

text \<open>
  C7: whenever \<^verbatim>\<open>generate_scene\<close> completes, the \<^verbatim>\<open>num_lights\<close> entry of the scene metadata
  is the number of lights among the assets of the scene (the scene starts with none, so these
  are the lights that were added), it lies between 5 and 10, and the lights are, in the order
  they were added, one directional light followed by \<^verbatim>\<open>num_lights - 1\<close> point lights.
\<close>

theorem generate_scene_lights:
  assumes "generate_scene cwd lq cat od idx na ds r = Inr out"
  shows "num_lights (lighting (out_metadata out)) = length (lights_of (assets (out_scene out))) \<and>
         5 \<le> num_lights (lighting (out_metadata out)) \<and>
         num_lights (lighting (out_metadata out)) \<le> 10 \<and>
         map is_directional (lights_of (assets (out_scene out))) =
           True # replicate (num_lights (lighting (out_metadata out)) - 1) False"
  using generate_scene_lights_aux [OF assms] by auto

theorem generate_scene_lights_witness:
  "\<exists>out. run0 = Inr out \<and>
     num_lights (lighting (out_metadata out)) = length (lights_of (assets (out_scene out))) \<and>
     5 \<le> num_lights (lighting (out_metadata out)) \<and>
     num_lights (lighting (out_metadata out)) \<le> 10 \<and>
     map is_directional (lights_of (assets (out_scene out))) =
       True # replicate (num_lights (lighting (out_metadata out)) - 1) False"
proof -
  obtain out where out: "run0 = Inr out" using run0_ok by blast
  from generate_scene_lights [OF out [unfolded run0_def]] out show ?thesis
    by (intro exI [of _ out] conjI) simp_all
qed

section \<open>Properties of the metadata documents\<close>

lemma target_object_name: "startswith (obj_name (fst (target_object p d r))) ''target_''"
  by (simp add: target_object_def Let_def case_prod_unfold startswith_def)

lemma place_pallet_name:
  assumes "place_pallet cat sc d r = Inr (obj, sc', r')"
  shows "startswith (obj_name obj) ''target_''"
proof -
  from assms obtain p where "obj = fst (target_object (fst p) d (snd p))"
    unfolding place_pallet_unfold and_then_Inr by auto
  then show ?thesis by (simp add: target_object_name)
qed

lemma object_record_of: "object_record obj = Inr rec \<Longrightarrow> record_of obj rec"
  by (auto simp: object_record_def and_then_Inr record_of_def)

lemma building_objects_names: "map obj_name (building_objects dims) = structural_names"
  by (simp add: building_objects_def cube_def structural_names_def)

lemma building_objects_cubes: "list_all (\<lambda>obj. \<not> is_file_based obj) (building_objects dims)"
  by (simp add: building_objects_def cube_def)

lemma unit_file_based: "list_all unit_file_object objs \<Longrightarrow> list_all is_file_based objs"
  by (induction objs) (simp_all add: unit_file_object_def)

lemma record_of_names:
  "list_all2 record_of objs recs \<Longrightarrow> map rec_name recs = map obj_name objs"
  by (induction rule: list_all2_induct) (simp_all add: record_of_def)

lemma generate_scene_objects_aux:
  assumes "generate_scene cwd lq cat od idx na ds r = Inr out"
  shows "\<exists>dims objs tp.
           physical_of (assets (out_scene out)) = building_objects dims @ objs @ [tp] \<and>
           list_all is_file_based (objs @ [tp]) \<and>
           16 \<le> length objs \<and> length objs \<le> 45 \<and>
           startswith (obj_name tp) ''target_'' \<and>
           list_all2 record_of (physical_of (assets (out_scene out)))
             (objects (out_metadata out)) \<and>
           map rec_name (objects (out_metadata out)) =
             structural_names @ map obj_name (objs @ [tp])"
proof -
  from assms obtain dims sc1 r1 sc2 r3 sc3 r5 sc4 r7 sc5 r9 tp sc6 r10 md docs files where
    st: "setup_building cat new_scene r = Inr (dims, sc1, r1)"
    "add_random_lighting sc1 (fst (randint 5 10 r1)) dims (snd (randint 5 10 r1)) = (sc2, r3)"
    "add_random_objects cat sc2 Rack (fst (randint 10 30 r3))
       (metal_textures cat @ plastic_textures cat) (snd (randint 10 30 r3)) = Inr (sc3, r5)"
    "add_random_objects cat sc3 Forklift (fst (randint 5 10 r5))
       (plastic_textures cat @ metal_textures cat) (snd (randint 5 10 r5)) = Inr (sc4, r7)"
    "add_random_objects cat sc4 Pallet (fst (randint 1 5 r7))
       (wood_textures cat) (snd (randint 1 5 r7)) = Inr (sc5, r9)" and
    pp: "place_pallet cat sc5 dims r9 = Inr (tp, sc6, r10)" and
    md: "scene_metadata_of idx dims sc6 = Inr md" and
    out: "out_scene out = sc6" "out_metadata out = md"
    by (rule generate_scene_stages) simp
  obtain objs where objs: "physical_of (assets sc5) = building_objects dims @ objs"
    "length objs = nat (fst (randint 10 30 r3)) + nat (fst (randint 5 10 r5)) +
       nat (fst (randint 1 5 r7))"
    "list_all unit_file_object objs"
    using stages_physical [OF st] by blast
  have len: "16 \<le> length objs" "length objs \<le> 45"
    using randint_range [of 10 30 r3] randint_range [of 5 10 r5] randint_range [of 1 5 r7]
      objs(2) by linarith+
  have tp: "unit_file_object tp" and a6: "assets sc6 = assets sc5 @ [PhysicalObject tp]"
    using place_pallet_view [OF pp] by simp_all
  have phys: "physical_of (assets sc6) = building_objects dims @ objs @ [tp]"
    by (simp add: a6 physical_of_append objs(1))
  have fb: "list_all is_file_based (objs @ [tp])"
    using unit_file_based [OF objs(3)] tp by (simp add: unit_file_object_def)
  have "list_all2 (\<lambda>obj rec. object_record obj = Inr rec) (physical_of (assets sc6)) (objects md)"
    using object_records_view [OF scene_metadata_of_view(2) [OF md]] .
  then have recs: "list_all2 record_of (physical_of (assets sc6)) (objects md)"
    by (rule list_all2_mono) (rule object_record_of)
  have names: "map rec_name (objects md) = structural_names @ map obj_name (objs @ [tp])"
    using record_of_names [OF recs] by (simp add: phys building_objects_names)
  show ?thesis
    unfolding out using phys fb len place_pallet_name [OF pp] recs names by blast
qed


lemma arctan2_simps:
  "arctan2 0 1 = 0" "arctan2 1 0 = pi / 2" "arctan2 0 (- 1) = pi" "arctan2 (- 1) 0 = - (pi / 2)"
  by (simp_all add: arctan2_def)

lemma rad2deg_simps: "rad2deg 0 = 0" "rad2deg (pi / 2) = 90" "rad2deg pi = 180"
  "rad2deg (- (pi / 2)) = - 90"
  by (simp_all add: rad2deg_def)

text \<open>
  C1: the record written for an object holds the angles \<^verbatim>\<open>as_euler("xyz")\<close> returns, which are
  in radians, of the rotation \<^verbatim>\<open>from_quat\<close> reads from the quaternion with the scalar last.
  For a cube as \<^verbatim>\<open>setup_building\<close> creates it (quaternion (1, 0, 0, 0), the identity) the
  recorded rotation is (pi, 0, 0), while the Euler xyz angles of its orientation in degrees
  are (0, 0, 0); and pi is not 180, the same half turn in degrees.
\<close>

theorem object_record_rotation_radians:
  "object_record (cube name scale position) =
     Inr \<lparr>rec_name = name, rec_position = position, rec_scale = scale,
          rec_rotation = (pi, 0, 0)\<rparr> \<and>
   spec_rotation_degrees (cube name scale position) = Inr (0, 0, 0) \<and>
   pi \<noteq> (180 :: real)"
proof -
  have "pi < (180 :: real)" using pi_less_4 by simp
  then show ?thesis
    by (simp add: object_record_def cube_def from_quat_def orientation_of_def
        spec_rotation_degrees_def and_then_simps as_euler_xyz_def Let_def arctan2_simps
        rad2deg_simps)
qed


text \<open>
  C2, amended: whenever \<^verbatim>\<open>generate_scene\<close> completes, the physical objects of the scene are
  the floor and the four walls, then between 16 and 45 objects loaded from files (the racks,
  forklifts and pallets), then the target pallet, whose name starts with \<^verbatim>\<open>target_\<close>; the
  \<^verbatim>\<open>objects\<close> list of the metadata has one record for each of them, in this order, with the
  name, position and scale of the object, so it begins with the records of the floor and of
  the four walls.
\<close>

theorem generate_scene_objects:
  assumes "generate_scene cwd lq cat od idx na ds r = Inr out"
  shows "\<exists>dims objs tp.
           physical_of (assets (out_scene out)) = building_objects dims @ objs @ [tp] \<and>
           list_all is_file_based (objs @ [tp]) \<and>
           16 \<le> length objs \<and> length objs \<le> 45 \<and>
           startswith (obj_name tp) ''target_'' \<and>
           list_all2 record_of (physical_of (assets (out_scene out)))
             (objects (out_metadata out)) \<and>
           map rec_name (objects (out_metadata out)) =
             structural_names @ map obj_name (objs @ [tp])"
  using assms by (rule generate_scene_objects_aux)

theorem generate_scene_objects_witness:
  "\<exists>out. run0 = Inr out \<and>
     (\<exists>dims objs tp.
           physical_of (assets (out_scene out)) = building_objects dims @ objs @ [tp] \<and>
           list_all is_file_based (objs @ [tp]) \<and>
           16 \<le> length objs \<and> length objs \<le> 45 \<and>
           startswith (obj_name tp) ''target_'' \<and>
           list_all2 record_of (physical_of (assets (out_scene out)))
             (objects (out_metadata out)) \<and>
           map rec_name (objects (out_metadata out)) =
             structural_names @ map obj_name (objs @ [tp]))"
proof -
  obtain out where out: "run0 = Inr out" using run0_ok by blast
  from generate_scene_objects [OF out [unfolded run0_def]] out show ?thesis
    by (intro exI [of _ out] conjI) simp_all
qed

text \<open>
  The claim C2 as stated fails on a concrete run: the first five records of the \<^verbatim>\<open>objects\<close>
  list are those of the floor and of the four walls.
\<close>

theorem generate_scene_objects_counterexample:
  "\<exists>out. run0 = Inr out \<and>
     take 5 (map rec_name (objects (out_metadata out))) =
       [''floor'', ''front_wall'', ''back_wall'', ''left_wall'', ''right_wall'']"
proof -
  obtain out where out: "run0 = Inr out" using run0_ok by blast
  have "take 5 (map rec_name (objects (out_metadata out))) = structural_names"
    using generate_scene_objects_aux [OF out [unfolded run0_def]]
    by (elim exE conjE) (simp add: structural_names_def)
  with out show ?thesis by (intro exI [of _ out]) (simp add: structural_names_def)
qed

lemma sqrt2_half_sq: "sqrt 2 / 2 * (sqrt 2 / 2) = 1 / 2" "sqrt 2 * sqrt 2 = 2"
  by simp_all

text \<open>
  C5: for a camera with the kubric quaternion (1/2, 1/2, 1/2, 1/2) and a target pallet with the
  quaternion (sqrt 2 / 2, sqrt 2 / 2, 0, 0), \<^verbatim>\<open>save_render_data\<close> writes the relative position
  target minus camera, and the relative orientation (90, 0, 0), whereas the rotation that maps
  the orientation of the camera to the orientation of the target has the Euler xyz angles
  (0, -90, 0) in degrees: the code gives the scalar-first quaternions of kubric to
  \<^verbatim>\<open>Rotation.from_quat\<close>, which reads them scalar last.
\<close>

theorem save_render_data_orientation:
  "\<exists>doc files.
     save_render_data ''/work'' ''output'' 0 0 camera0 (1 / 2, 1 / 2, 1 / 2, 1 / 2) pallet0 =
       Inr (doc, files) \<and>
     relative_position_xyz doc = (- 1, 0, 0) \<and>
     relative_orientation_xyz doc = (90, 0, 0) \<and>
     spec_relative_orientation (1 / 2, 1 / 2, 1 / 2, 1 / 2) (obj_quaternion pallet0) =
       Inr (0, - 90, 0)"
proof -
  have c: "from_quat (1 / 2, 1 / 2, 1 / 2, 1 / 2) = Inr (Rotation (1 / 2) (1 / 2) (1 / 2) (1 / 2))"
    by (simp add: from_quat_def)
  have c': "orientation_of (1 / 2, 1 / 2, 1 / 2, 1 / 2) =
      Inr (Rotation (1 / 2) (1 / 2) (1 / 2) (1 / 2))"
    by (simp add: orientation_of_def)
  have p: "from_quat (obj_quaternion pallet0) = Inr (Rotation (sqrt 2 / 2) (sqrt 2 / 2) 0 0)"
    by (simp add: from_quat_def pallet0_def)
  have p': "orientation_of (obj_quaternion pallet0) = Inr (Rotation (sqrt 2 / 2) 0 0 (sqrt 2 / 2))"
    by (simp add: orientation_of_def pallet0_def)
  have m: "rotation_mul (rotation_inv (Rotation (1 / 2) (1 / 2) (1 / 2) (1 / 2)))
             (Rotation (sqrt 2 / 2) (sqrt 2 / 2) 0 0) = Rotation (sqrt 2 / 2) 0 0 (sqrt 2 / 2)"
    by (simp add: rotation_mul_def rotation_inv_def)
  have m': "rotation_mul (rotation_inv (Rotation (1 / 2) (1 / 2) (1 / 2) (1 / 2)))
             (Rotation (sqrt 2 / 2) 0 0 (sqrt 2 / 2)) = Rotation 0 (- (sqrt 2 / 2)) 0 (sqrt 2 / 2)"
    by (simp add: rotation_mul_def rotation_inv_def)
  have e: "as_euler_xyz (Rotation (sqrt 2 / 2) 0 0 (sqrt 2 / 2)) True = (90, 0, 0)"
    by (simp add: as_euler_xyz_def Let_def arctan2_simps rad2deg_simps)
  have e': "as_euler_xyz (Rotation 0 (- (sqrt 2 / 2)) 0 (sqrt 2 / 2)) True = (0, - 90, 0)"
    by (simp add: as_euler_xyz_def Let_def arctan2_simps rad2deg_simps)
  obtain doc files where d:
    "save_render_data ''/work'' ''output'' 0 0 camera0 (1 / 2, 1 / 2, 1 / 2, 1 / 2) pallet0 =
       Inr (doc, files)"
    using save_render_data_ok [where cq = "(1 / 2, 1 / 2, 1 / 2, 1 / 2)" and pallet = pallet0
        and cwd = "''/work''" and od = "''output''" and si = 0 and ci = 0 and cam = camera0]
    by (auto simp: quaternion_norm2_def pallet0_def)
  from d have "relative_position_xyz doc = (- 1, 0, 0)" "relative_orientation_xyz doc = (90, 0, 0)"
    unfolding save_render_data_def Let_def c p and_then_Inr m e
    by (auto simp: m e camera0_def vx_def vy_def vz_def pallet0_def
        simp del: path_join.simps str_nat.simps)
  moreover have "spec_relative_orientation (1 / 2, 1 / 2, 1 / 2, 1 / 2) (obj_quaternion pallet0) =
       Inr (0, - 90, 0)"
    by (simp add: spec_relative_orientation_def c' p' and_then_simps m' e')
  ultimately show ?thesis using d by blast
qed

end
